theory Spec2Isabelle
  imports Complex_Main
begin

section \<open>JSON values and Python text\<close>

text \<open>
  The values \<^verbatim>\<open>json.loads\<close> produces. Python's \<^verbatim>\<open>None\<close> is \<open>JNull\<close>; a Python
  \<^verbatim>\<open>dict\<close> keeps its insertion order and is an association list (its keys are strings and
  distinct); a Python \<^verbatim>\<open>float\<close> is \<open>JFloat (Some q)\<close> for the finite double of value \<open>q\<close>
  and \<open>JFloat None\<close> for NaN and the infinities, which \<^verbatim>\<open>json.loads\<close> accepts.
  Text is an Isabelle \<open>string\<close>: a character stands for a code point below 256, and the
  Python string methods below are modelled on that range.
\<close>

datatype json =
    JNull
  | JBool bool
  | JInt int
  | JFloat "rat option"
  | JStr string
  | JArr "json list"
  | JObj "(string \<times> json) list"

text \<open>\<^verbatim>\<open>str.lower()\<close> on one character: A-Z and the Latin-1 capitals move up by 32.\<close>

definition lower_char :: "char \<Rightarrow> char" where
  "lower_char c =
     (let n = (of_char c :: nat)
      in if (65 \<le> n \<and> n \<le> 90) \<or> (192 \<le> n \<and> n \<le> 214) \<or> (216 \<le> n \<and> n \<le> 222)
         then char_of (n + 32) else c)"

definition lower :: "string \<Rightarrow> string" where
  "lower s = map lower_char s"

text \<open>
  \<^verbatim>\<open>str.isspace()\<close> on one character, which decides what \<^verbatim>\<open>strip()\<close> removes: tab to
  carriage return, the separators 28 to 31, space, and the Latin-1 characters 133 and 160.
\<close>

definition isspace :: "char \<Rightarrow> bool" where
  "isspace c =
     (let n = (of_char c :: nat)
      in (9 \<le> n \<and> n \<le> 13) \<or> (28 \<le> n \<and> n \<le> 32) \<or> n = 133 \<or> n = 160)"

definition lstrip :: "string \<Rightarrow> string" where
  "lstrip s = dropWhile isspace s"

definition strip :: "string \<Rightarrow> string" where
  "strip s = rev (dropWhile isspace (rev (dropWhile isspace s)))"

definition startswith :: "string \<Rightarrow> string \<Rightarrow> bool" where
  "startswith s p = (take (length p) s = p)"

text \<open>
  \<^verbatim>\<open>str.splitlines()\<close>: a line ends at line feed, vertical tab, form feed, carriage return
  (with a following line feed), the separators 28 to 30 and the Latin-1 next-line
  character 133; the line ends are dropped and no empty last line is produced.
\<close>

definition is_linebreak :: "char \<Rightarrow> bool" where
  "is_linebreak c =
     (let n = (of_char c :: nat)
      in (10 \<le> n \<and> n \<le> 13) \<or> (28 \<le> n \<and> n \<le> 30) \<or> n = 133)"

fun splitlines :: "string \<Rightarrow> string list" where
  "splitlines [] = []"
| "splitlines [c] = (if is_linebreak c then [[]] else [[c]])"
| "splitlines (c # d # cs) =
     (if c = CHR 0x0D \<and> d = CHR 0x0A then [] # splitlines cs
      else if is_linebreak c then [] # splitlines (d # cs)
      else (case splitlines (d # cs) of
              [] \<Rightarrow> [[c]]
            | l # ls \<Rightarrow> (c # l) # ls))"

text \<open>Decimal text of an integer, as an f-string prints it.\<close>

fun digits :: "nat \<Rightarrow> string" where
  "digits n =
     (if n < 10 then [char_of (48 + n)]
      else digits (n div 10) @ [char_of (48 + n mod 10)])"

declare digits.simps [simp del]

definition str_int :: "int \<Rightarrow> string" where
  "str_int i = (if i < 0 then ''-'' @ digits (nat (- i)) else digits (nat i))"

subsection \<open>Python's view of a JSON value\<close>

text \<open>\<^verbatim>\<open>type(x).__name__\<close>.\<close>

fun type_name :: "json \<Rightarrow> string" where
  "type_name JNull = ''NoneType''"
| "type_name (JBool b) = ''bool''"
| "type_name (JInt n) = ''int''"
| "type_name (JFloat f) = ''float''"
| "type_name (JStr s) = ''str''"
| "type_name (JArr xs) = ''list''"
| "type_name (JObj d) = ''dict''"

text \<open>
  \<^verbatim>\<open>isinstance\<close>. In Python \<^verbatim>\<open>bool\<close> is a subclass of \<^verbatim>\<open>int\<close>, so
  \<^verbatim>\<open>isinstance(True, int)\<close> holds.
\<close>

fun isinstance_dict :: "json \<Rightarrow> bool" where
  "isinstance_dict (JObj d) = True"
| "isinstance_dict x = False"

fun isinstance_list :: "json \<Rightarrow> bool" where
  "isinstance_list (JArr xs) = True"
| "isinstance_list x = False"

fun isinstance_str :: "json \<Rightarrow> bool" where
  "isinstance_str (JStr s) = True"
| "isinstance_str x = False"

fun isinstance_bool :: "json \<Rightarrow> bool" where
  "isinstance_bool (JBool b) = True"
| "isinstance_bool x = False"

fun isinstance_int :: "json \<Rightarrow> bool" where
  "isinstance_int (JInt n) = True"
| "isinstance_int (JBool b) = True"
| "isinstance_int x = False"

fun isinstance_float :: "json \<Rightarrow> bool" where
  "isinstance_float (JFloat f) = True"
| "isinstance_float x = False"

text \<open>Truth value of an object, as \<^verbatim>\<open>if x\<close>, \<^verbatim>\<open>not x\<close> and \<^verbatim>\<open>x or y\<close> test it.\<close>

fun truthy :: "json \<Rightarrow> bool" where
  "truthy JNull = False"
| "truthy (JBool b) = b"
| "truthy (JInt n) = (n \<noteq> 0)"
| "truthy (JFloat f) = (f \<noteq> Some 0)"
| "truthy (JStr s) = (s \<noteq> [])"
| "truthy (JArr xs) = (xs \<noteq> [])"
| "truthy (JObj d) = (d \<noteq> [])"

definition py_or :: "json \<Rightarrow> json \<Rightarrow> json" where
  "py_or x y = (if truthy x then x else y)"

text \<open>
  The number a value stands for in a comparison (\<^verbatim>\<open>True == 1\<close>, \<^verbatim>\<open>1 == 1.0\<close>), and
  \<^verbatim>\<open>x == y\<close> where \<open>y\<close> is a number: NaN and the infinities equal no integer.
\<close>

fun num_value :: "json \<Rightarrow> rat option" where
  "num_value (JBool b) = Some (if b then 1 else 0)"
| "num_value (JInt n) = Some (of_int n)"
| "num_value (JFloat f) = f"
| "num_value x = None"

definition eq_number :: "json \<Rightarrow> json \<Rightarrow> bool" where
  "eq_number x y = (num_value x \<noteq> None \<and> num_value x = num_value y)"

text \<open>\<^verbatim>\<open>d.get(key)\<close> (\<^verbatim>\<open>None\<close> when the key is missing) and \<^verbatim>\<open>key in d\<close>.\<close>

definition dget :: "(string \<times> json) list \<Rightarrow> string \<Rightarrow> json" where
  "dget d k = (case map_of d k of None \<Rightarrow> JNull | Some v \<Rightarrow> v)"

definition has_key :: "(string \<times> json) list \<Rightarrow> string \<Rightarrow> bool" where
  "has_key d k = (map_of d k \<noteq> None)"

text \<open>\<^verbatim>\<open>d[key] = v\<close>: an existing key keeps its place, a new key goes last.\<close>

definition dset :: "(string \<times> json) list \<Rightarrow> string \<Rightarrow> json \<Rightarrow> (string \<times> json) list" where
  "dset d k v =
     (if has_key d k then map (\<lambda>(k', v'). if k' = k then (k', v) else (k', v')) d
      else d @ [(k, v)])"

text \<open>
  The loop \<^verbatim>\<open>for v in xs: if isinstance(v, dict) and isinstance(v.get("id"), int): return v["id"]\<close>,
  with \<open>JNull\<close> where it finds nothing.
\<close>

definition first_int_id :: "json list \<Rightarrow> json" where
  "first_int_id xs =
     (case find (\<lambda>v. case v of JObj vd \<Rightarrow> isinstance_int (dget vd ''id'') | _ \<Rightarrow> False) xs of
        Some (JObj vd) \<Rightarrow> dget vd ''id''
      | _ \<Rightarrow> JNull)"

section \<open>Redaction of JSON snapshots (run\_tests.py)\<close>

definition SENSITIVE_JSON_KEYS :: "string set" where
  "SENSITIVE_JSON_KEYS =
     {''access_token'', ''refresh_token'', ''client_secret'', ''device_token'',
      ''code'', ''user_code''}"

definition REDACTED :: json where
  "REDACTED = JStr ''<REDACTED>''"

text \<open>
  \<^verbatim>\<open>_redact_json\<close>. The keys of a parsed JSON object are strings, so the source's
  \<^verbatim>\<open>isinstance(k, str)\<close> holds for every key.
\<close>

fun redact_json :: "json \<Rightarrow> json" where
  "redact_json JNull = JNull"
| "redact_json (JObj d) =
     JObj (map (\<lambda>(k, v). if lower k \<in> SENSITIVE_JSON_KEYS then (k, REDACTED)
                           else (k, redact_json v)) d)"
| "redact_json (JArr xs) = JArr (map redact_json xs)"
| "redact_json obj = obj"

subsection \<open>The recursion limit of the interpreter\<close>

text \<open>
  \<^verbatim>\<open>_redact_json\<close> calls itself once for every level of nesting, has no guard on the depth
  and catches nothing, and the interpreter raises \<^verbatim>\<open>RecursionError\<close> at the call that would
  exceed its recursion limit. \<open>redact_json_limited c n obj\<close> is the call made when \<open>n\<close> more
  frames fit on the call stack. Every call of \<^verbatim>\<open>_redact_json\<close> takes one frame; the list
  comprehension of the array branch takes \<open>c\<close> more (one on an interpreter that runs a
  comprehension in a frame of its own, none on one that inlines it); the built-in calls
  return before the next call of \<^verbatim>\<open>_redact_json\<close> and are not counted. The value under a
  sensitive key is not visited. The first error met ends the call, so a list of results is
  a result only when every element is one.
\<close>

datatype python_error = RecursionError

fun collect :: "(python_error + 'a) list \<Rightarrow> python_error + 'a list" where
  "collect [] = Inr []"
| "collect (Inl e # rs) = Inl e"
| "collect (Inr a # rs) = (case collect rs of Inl e \<Rightarrow> Inl e | Inr as \<Rightarrow> Inr (a # as))"

fun redact_json_limited :: "nat \<Rightarrow> nat \<Rightarrow> json \<Rightarrow> python_error + json" where
  "redact_json_limited c 0 obj = Inl RecursionError"
| "redact_json_limited c (Suc n) JNull = Inr JNull"
| "redact_json_limited c (Suc n) (JObj d) =
     map_sum id JObj
       (collect (map (\<lambda>(k, v). if lower k \<in> SENSITIVE_JSON_KEYS then Inr (k, REDACTED)
                               else map_sum id (Pair k) (redact_json_limited c n v)) d))"
| "redact_json_limited c (Suc n) (JArr xs) =
     (if n < c then Inl RecursionError
      else map_sum id JArr (collect (map (redact_json_limited c (n - c)) xs)))"
| "redact_json_limited c (Suc n) obj = Inr obj"

text \<open>
  The frames a document needs: one for a scalar, and for a container one more (and \<open>c\<close>
  for an array) than its most demanding element that is visited.
\<close>

fun frames_needed :: "nat \<Rightarrow> json \<Rightarrow> nat" where
  "frames_needed c (JObj d) =
     Suc (foldr max (map (\<lambda>(k, v). if lower k \<in> SENSITIVE_JSON_KEYS then 0
                                     else frames_needed c v) d) 0)"
| "frames_needed c (JArr xs) = Suc (c + foldr max (map (frames_needed c) xs) 0)"
| "frames_needed c obj = Suc 0"

section \<open>Resolving the access token (run\_tests.py)\<close>

definition ENV_ACCESS_TOKEN :: string where
  "ENV_ACCESS_TOKEN = ''KINOPUB_ACCESS_TOKEN''"

text \<open>
  \<^verbatim>\<open>_read_token_file\<close>. The file system is a map from a path to the text of the file,
  \<open>None\<close> where \<^verbatim>\<open>open\<close> or \<^verbatim>\<open>read\<close> raises (both handlers of the source return
  \<^verbatim>\<open>None\<close>). The JSON parser is a parameter: \<open>loads s\<close> is \<open>None\<close> where
  \<^verbatim>\<open>json.loads\<close> raises, which the source turns into \<^verbatim>\<open>obj = None\<close>.
\<close>

definition read_token_file ::
  "(string \<Rightarrow> json option) \<Rightarrow> (string \<Rightarrow> string option) \<Rightarrow> string \<Rightarrow> string option" where
  "read_token_file loads files path =
     (case files path of
        None \<Rightarrow> None
      | Some raw0 \<Rightarrow>
          let raw = strip raw0 in
          if raw = [] then None
          else
            (case (if startswith (lstrip raw) ''{'' then
                     (case (case loads raw of None \<Rightarrow> JNull | Some obj \<Rightarrow> obj) of
                        JObj d \<Rightarrow>
                          (case py_or (dget d ''access_token'') (dget d ''token'') of
                             JStr t \<Rightarrow> if strip t \<noteq> [] then Some (strip t) else None
                           | _ \<Rightarrow> None)
                      | _ \<Rightarrow> None)
                   else None) of
               Some tok \<Rightarrow> Some tok
             | None \<Rightarrow>
                 find (\<lambda>line. \<not> (line = [] \<or> startswith line ''#''))
                   (map strip (splitlines raw))))"

text \<open>
  \<^verbatim>\<open>_resolve_access_token\<close>. \<open>environ\<close> is \<^verbatim>\<open>os.environ\<close>. The result is the pair of
  the token and the tag of its source.
\<close>

definition resolve_access_token ::
  "(string \<Rightarrow> json option) \<Rightarrow> (string \<Rightarrow> string option) \<Rightarrow> (string \<Rightarrow> string option) \<Rightarrow>
     string option \<Rightarrow> string \<Rightarrow> string option \<times> string" where
  "resolve_access_token loads files environ token_arg token_file =
     (if (case token_arg of None \<Rightarrow> False | Some a \<Rightarrow> a \<noteq> [] \<and> strip a \<noteq> [])
      then (map_option strip token_arg, ''arg'')
      else
        let env_tok = environ ENV_ACCESS_TOKEN in
        if (case env_tok of None \<Rightarrow> False | Some e \<Rightarrow> e \<noteq> [] \<and> strip e \<noteq> [])
        then (map_option strip env_tok, ''env'')
        else
          let file_tok = read_token_file loads files token_file in
          if (case file_tok of None \<Rightarrow> False | Some f \<Rightarrow> f \<noteq> [])
          then (file_tok, ''file'')
          else (None, ''missing''))"

section \<open>HTTP responses and shape validation (run\_tests.py)\<close>

text \<open>
  \<^verbatim>\<open>HttpResponse\<close>: what \<^verbatim>\<open>_http_request\<close> returns. The field \<open>json\<close> is \<open>JNull\<close> where
  the source holds \<^verbatim>\<open>None\<close> (no body, a body that is not JSON, or the JSON \<^verbatim>\<open>null\<close>).
  An exchange that returns no response (a network failure other than an HTTP error status)
  raises out of the program; the model describes the runs whose exchanges all return.
\<close>

record HttpResponse =
  status :: int
  headers :: "(string \<times> string) list"
  raw_text :: string
  json :: json

text \<open>The validation helpers append a message to the error list on a mismatch.\<close>

definition require :: "bool \<Rightarrow> string \<Rightarrow> string list \<Rightarrow> string list" where
  "require cond msg errors = (if \<not> cond then errors @ [msg] else errors)"

definition expect_obj :: "json \<Rightarrow> string \<Rightarrow> string list \<Rightarrow> string list" where
  "expect_obj x where errors =
     require (isinstance_dict x) (where @ '': expected object, got '' @ type_name x) errors"

definition expect_list :: "json \<Rightarrow> string \<Rightarrow> string list \<Rightarrow> string list" where
  "expect_list x where errors =
     require (isinstance_list x) (where @ '': expected array, got '' @ type_name x) errors"

definition expect_str :: "json \<Rightarrow> string \<Rightarrow> string list \<Rightarrow> string list" where
  "expect_str x where errors =
     require (isinstance_str x) (where @ '': expected string, got '' @ type_name x) errors"

definition expect_int :: "json \<Rightarrow> string \<Rightarrow> string list \<Rightarrow> string list" where
  "expect_int x where errors =
     require (isinstance_int x \<and> \<not> isinstance_bool x)
       (where @ '': expected int, got '' @ type_name x) errors"

definition expect_bool :: "json \<Rightarrow> string \<Rightarrow> string list \<Rightarrow> string list" where
  "expect_bool x where errors =
     require (isinstance_bool x) (where @ '': expected bool, got '' @ type_name x) errors"

definition expect_num :: "json \<Rightarrow> string \<Rightarrow> string list \<Rightarrow> string list" where
  "expect_num x where errors =
     require ((isinstance_int x \<or> isinstance_float x) \<and> \<not> isinstance_bool x)
       (where @ '': expected number, got '' @ type_name x) errors"

section \<open>Test outcomes and the probes (run\_tests.py)\<close>

datatype outcome_status = PASS | FAIL | SKIP

record TestOutcome =
  status :: outcome_status
  errors :: "string list"
  context_updates :: "(string \<times> json) list"

text \<open>
  The transport: \<open>http l\<close> is the response to the exchange \<open>l\<close> of the run. An exchange is
  named by the snapshot id under which the source saves it (the few exchanges it does not
  save have a name of their own here). The requests themselves and the snapshot files are
  not part of the model, so the base URL and the token, which only go into requests, are
  not parameters of a probe.

  An identifier picked from a response is the JSON value found there, \<open>JNull\<close> for
  \<^verbatim>\<open>None\<close>; \<^verbatim>\<open>isinstance(v, int)\<close> lets a boolean through, so it is \<open>JInt n\<close> or
  \<open>JBool b\<close>.
\<close>

type_synonym transport = "string \<Rightarrow> HttpResponse"

definition test_user :: "transport \<Rightarrow> TestOutcome" where
  "test_user http =
     (let errors = [];
          resp = http ''user_get'';
          errors = require (json resp \<noteq> JNull) ''response is not JSON'' errors;
          errors =
            (case json resp of
               JObj d \<Rightarrow>
                 let errors = expect_int (dget d ''status'') ''status'' errors;
                     user = dget d ''user'';
                     errors = expect_obj user ''user'' errors
                 in (case user of
                       JObj u \<Rightarrow>
                         let errors = expect_str (dget u ''username'') ''user.username'' errors;
                             sub = dget u ''subscription'';
                             errors =
                               (if sub \<noteq> JNull then
                                  let errors = expect_obj sub ''user.subscription'' errors
                                  in (case sub of
                                        JObj sd \<Rightarrow>
                                          if has_key sd ''active''
                                          then expect_bool (dget sd ''active'')
                                                 ''user.subscription.active'' errors
                                          else errors
                                      | _ \<Rightarrow> errors)
                                else errors);
                             prof = dget u ''profile''
                         in if prof \<noteq> JNull then expect_obj prof ''user.profile'' errors
                            else errors
                     | _ \<Rightarrow> errors)
             | _ \<Rightarrow> expect_obj (json resp) ''root'' errors)
      in \<lparr>status = (if errors = [] then PASS else FAIL), errors = errors,
          context_updates = []\<rparr>)"

text \<open>\<^verbatim>\<open>test_oauth_device_flow_pending\<close>: the device-code request, then one poll.\<close>

definition test_oauth_device_flow_pending :: "transport \<Rightarrow> TestOutcome" where
  "test_oauth_device_flow_pending http =
     (let errors = [];
          r_code = http ''auth_device_code'';
          errors = require (isinstance_dict (json r_code)) ''device_code: expected JSON object'' errors;
          code = JNull;
          (code, errors) =
            (case json r_code of
               JObj d \<Rightarrow>
                 let code = dget d ''code'';
                     errors = expect_str code ''device_code.code'' errors;
                     errors = expect_str (dget d ''user_code'') ''device_code.user_code'' errors;
                     errors = expect_str (dget d ''verification_uri'')
                                ''device_code.verification_uri'' errors;
                     errors = expect_int (dget d ''expires_in'') ''device_code.expires_in'' errors;
                     errors = expect_int (dget d ''interval'') ''device_code.interval'' errors
                 in (code, errors)
             | _ \<Rightarrow> (code, errors))
      in if \<not> truthy code then
           \<lparr>status = FAIL,
            errors = errors @ [''device_code: missing code; cannot test device_token polling''],
            context_updates = []\<rparr>
         else
           let r_poll = http ''auth_device_token_poll'';
               errors = require (isinstance_dict (json r_poll))
                          ''device_token poll: expected JSON object'' errors;
               errors =
                 (case json r_poll of
                    JObj d \<Rightarrow>
                      if has_key d ''error''
                      then expect_str (dget d ''error'') ''device_token.error'' errors
                      else
                        let errors = expect_str (dget d ''access_token'')
                                       ''device_token.access_token'' errors;
                            errors = expect_str (dget d ''refresh_token'')
                                       ''device_token.refresh_token'' errors
                        in expect_int (dget d ''expires_in'') ''device_token.expires_in'' errors
                  | _ \<Rightarrow> errors)
           in \<lparr>status = (if errors = [] then PASS else FAIL), errors = errors,
               context_updates = []\<rparr>)"

subsection \<open>The probes of the api2 surface\<close>

definition test_api2_items_search :: "transport \<Rightarrow> TestOutcome \<times> json" where
  "test_api2_items_search http =
     (let errors = [];
          resp = http ''api2_items_search'';
          errors = require (json resp \<noteq> JNull) ''api2 search: response is not JSON'' errors;
          item_id = JNull;
          (item_id, errors) =
            (case json resp of
               JObj d \<Rightarrow>
                 let items = dget d ''items'';
                     item_id =
                       (case items of
                          JArr (it0 # rest) \<Rightarrow>
                            (case it0 of
                               JObj i0 \<Rightarrow>
                                 if isinstance_int (dget i0 ''id'') then dget i0 ''id'' else item_id
                             | _ \<Rightarrow> item_id)
                        | _ \<Rightarrow> item_id)
                 in (item_id,
                     if item_id = JNull
                     then errors @ [''api2 search: could not pick itemId from items[]'']
                     else errors)
             | _ \<Rightarrow> (item_id, expect_obj (json resp) ''api2 search root'' errors))
      in (\<lparr>status = (if errors = [] then PASS else FAIL), errors = errors,
           context_updates = []\<rparr>, item_id))"

definition test_api2_item_details :: "transport \<Rightarrow> TestOutcome" where
  "test_api2_item_details http =
     (let errors = [];
          resp = http ''api2_item_details'';
          errors = require (json resp \<noteq> JNull) ''api2 item: response is not JSON'' errors;
          meta = [(''imdb_id'', JNull), (''kinopoisk_id'', JNull)];
          (meta, errors) =
            (case json resp of
               JObj d \<Rightarrow>
                 if has_key d ''item'' then
                   let errors = expect_obj (dget d ''item'') ''api2 item.item'' errors
                   in (case dget d ''item'' of
                         JObj it \<Rightarrow>
                           let imdb = dget it ''imdb'';
                               kp = dget it ''kinopoisk'';
                               meta = (if isinstance_int imdb \<and> \<not> isinstance_bool imdb
                                       then dset meta ''imdb_id'' imdb else meta);
                               meta = (if isinstance_int kp \<and> \<not> isinstance_bool kp
                                       then dset meta ''kinopoisk_id'' kp else meta)
                           in (meta, errors)
                       | _ \<Rightarrow> (meta, errors))
                 else if has_key d ''id'' then
                   (meta, expect_int (dget d ''id'') ''api2 item.id'' errors)
                 else (meta, errors)
             | _ \<Rightarrow> (meta, expect_obj (json resp) ''api2 item root'' errors))
      in \<lparr>status = (if errors = [] then PASS else FAIL), errors = errors,
          context_updates = meta\<rparr>)"

definition test_api2_backdrop :: "transport \<Rightarrow> TestOutcome" where
  "test_api2_backdrop http =
     (let errors = [];
          resp = http ''api2_backdrop''
      in if HttpResponse.status resp = 404 then
           \<lparr>status = SKIP,
            errors = [''api2 backdrop returned 404 (no data for this title or endpoint disabled)''],
            context_updates = []\<rparr>
         else
           let errors = require (HttpResponse.status resp = 200)
                          (''api2 backdrop: expected HTTP 200 (or 404), got ''
                             @ str_int (HttpResponse.status resp)) errors
           in \<lparr>status = (if errors = [] then PASS else FAIL), errors = errors,
               context_updates = []\<rparr>)"

definition test_api2_notifications_mutating :: "transport \<Rightarrow> TestOutcome" where
  "test_api2_notifications_mutating http =
     (let errors = [];
          r_add = http ''api2_notifications_add'';
          errors = require (HttpResponse.status r_add = 200)
                     (''api2 notifications add: expected HTTP 200, got ''
                        @ str_int (HttpResponse.status r_add)) errors;
          errors =
            (if json r_add \<noteq> JNull \<and> \<not> isinstance_dict (json r_add)
             then errors @ [''api2 notifications add: expected JSON object (or null), got ''
                              @ type_name (json r_add)]
             else errors);
          r_check = http ''api2_notifications_check'';
          errors = require (HttpResponse.status r_check = 200)
                     (''api2 notifications check: expected HTTP 200, got ''
                        @ str_int (HttpResponse.status r_check)) errors;
          errors =
            (if json r_check \<noteq> JNull \<and> \<not> isinstance_dict (json r_check)
             then errors @ [''api2 notifications check: expected JSON object (or null), got ''
                              @ type_name (json r_check)]
             else errors);
          r_del = http ''api2_notifications_delete'';
          errors = require (HttpResponse.status r_del = 200)
                     (''api2 notifications delete: expected HTTP 200, got ''
                        @ str_int (HttpResponse.status r_del)) errors;
          errors =
            (if json r_del \<noteq> JNull \<and> \<not> isinstance_dict (json r_del)
             then errors @ [''api2 notifications delete: expected JSON object (or null), got ''
                              @ type_name (json r_del)]
             else errors)
      in \<lparr>status = (if errors = [] then PASS else FAIL), errors = errors,
          context_updates = []\<rparr>)"

definition test_api2_upload_report :: "transport \<Rightarrow> TestOutcome" where
  "test_api2_upload_report http =
     (let errors = [];
          resp = http ''api2_upload_report'';
          errors = require (HttpResponse.status resp \<in> {200, 201, 204})
                     (''api2 upload_report: expected HTTP 200/201/204, got ''
                        @ str_int (HttpResponse.status resp)) errors
      in \<lparr>status = (if errors = [] then PASS else FAIL), errors = errors,
          context_updates = []\<rparr>)"

definition test_api2_item_collections :: "transport \<Rightarrow> TestOutcome" where
  "test_api2_item_collections http =
     (let errors = [];
          resp = http ''api2_item_collections'';
          errors = require (json resp \<noteq> JNull)
                     ''api2 item collections: response is not JSON'' errors;
          errors =
            (case json resp of
               JObj d \<Rightarrow>
                 if has_key d ''items''
                 then expect_list (dget d ''items'') ''api2 collections.items'' errors
                 else errors
             | _ \<Rightarrow> expect_obj (json resp) ''api2 collections root'' errors)
      in \<lparr>status = (if errors = [] then PASS else FAIL), errors = errors,
          context_updates = []\<rparr>)"

definition test_api2_imdb :: "transport \<Rightarrow> TestOutcome" where
  "test_api2_imdb http =
     (let errors = [];
          resp = http ''api2_imdb''
      in if HttpResponse.status resp = 404 then
           \<lparr>status = SKIP, errors = [''api2 imdb returned 404 (matches com.kinopub logs)''],
            context_updates = []\<rparr>
         else
           let errors = require (HttpResponse.status resp = 200)
                          (''api2 imdb: expected HTTP 200 (or 404), got ''
                             @ str_int (HttpResponse.status resp)) errors;
               errors = require (json resp \<noteq> JNull) ''api2 imdb: response is not JSON'' errors
           in \<lparr>status = (if errors = [] then PASS else FAIL), errors = errors,
               context_updates = []\<rparr>)"

subsection \<open>The catalogue probes\<close>

definition test_types :: "transport \<Rightarrow> TestOutcome \<times> json list" where
  "test_types http =
     (let errors = [];
          resp = http ''content_types'';
          errors = require (json resp \<noteq> JNull) ''response is not JSON'' errors;
          errors =
            (case json resp of
               JObj d \<Rightarrow>
                 let errors = expect_int (dget d ''status'') ''types.status'' errors;
                     items = dget d ''items'';
                     errors = expect_list items ''types.items'' errors
                 in (case items of
                       JArr xs \<Rightarrow>
                         foldl (\<lambda>errors (i, it).
                             let errors = expect_obj it
                                            (''types.items['' @ str_int (int i) @ '']'') errors
                             in (case it of
                                   JObj itd \<Rightarrow>
                                     let errors = expect_str (dget itd ''id'')
                                                    (''types.items['' @ str_int (int i) @ ''].id'')
                                                    errors
                                     in expect_str (dget itd ''title'')
                                          (''types.items['' @ str_int (int i) @ ''].title'') errors
                                 | _ \<Rightarrow> errors))
                           errors (enumerate 0 (take 5 xs))
                     | _ \<Rightarrow> errors)
             | _ \<Rightarrow> expect_obj (json resp) ''types.root'' errors)
      in (\<lparr>status = (if errors = [] then PASS else FAIL), errors = errors,
           context_updates = []\<rparr>, []))"

text \<open>
  \<^verbatim>\<open>test_genres\<close> also picks the id of the first genre whose id is an integer and not a
  boolean.
\<close>

definition test_genres :: "transport \<Rightarrow> TestOutcome \<times> json" where
  "test_genres http =
     (let errors = [];
          resp = http ''content_genres'';
          genre_id = JNull;
          errors = require (json resp \<noteq> JNull) ''response is not JSON'' errors;
          (genre_id, errors) =
            (case json resp of
               JObj d \<Rightarrow>
                 let errors = expect_int (dget d ''status'') ''genres.status'' errors;
                     items = dget d ''items'';
                     errors = expect_list items ''genres.items'' errors
                 in (case items of
                       JArr xs \<Rightarrow>
                         let genre_id =
                               (case find (\<lambda>it. case it of
                                              JObj itd \<Rightarrow>
                                                isinstance_int (dget itd ''id'')
                                                \<and> \<not> isinstance_bool (dget itd ''id'')
                                            | _ \<Rightarrow> False) xs of
                                  Some (JObj itd) \<Rightarrow> dget itd ''id''
                                | _ \<Rightarrow> genre_id);
                             errors =
                               foldl (\<lambda>errors (i, it).
                                   let errors = expect_obj it
                                                  (''genres.items['' @ str_int (int i) @ '']'') errors
                                   in (case it of
                                         JObj itd \<Rightarrow>
                                           let errors = expect_int (dget itd ''id'')
                                                          (''genres.items['' @ str_int (int i)
                                                             @ ''].id'') errors
                                           in expect_str (dget itd ''title'')
                                                (''genres.items['' @ str_int (int i) @ ''].title'')
                                                errors
                                       | _ \<Rightarrow> errors))
                                 errors (enumerate 0 (take 5 xs))
                         in (genre_id, errors)
                     | _ \<Rightarrow> (genre_id, errors))
             | _ \<Rightarrow> (genre_id, expect_obj (json resp) ''genres.root'' errors))
      in (\<lparr>status = (if errors = [] then PASS else FAIL), errors = errors,
           context_updates = []\<rparr>, genre_id))"

definition test_countries :: "transport \<Rightarrow> TestOutcome" where
  "test_countries http =
     (let errors = [];
          resp = http ''content_countries'';
          errors = require (json resp \<noteq> JNull) ''response is not JSON'' errors;
          errors =
            (case json resp of
               JObj d \<Rightarrow>
                 let errors = expect_int (dget d ''status'') ''countries.status'' errors;
                     items = dget d ''items'';
                     errors = expect_list items ''countries.items'' errors
                 in (case items of
                       JArr xs \<Rightarrow>
                         foldl (\<lambda>errors (i, it).
                             let errors = expect_obj it
                                            (''countries.items['' @ str_int (int i) @ '']'') errors
                             in (case it of
                                   JObj itd \<Rightarrow>
                                     let errors = expect_int (dget itd ''id'')
                                                    (''countries.items['' @ str_int (int i)
                                                       @ ''].id'') errors
                                     in expect_str (dget itd ''title'')
                                          (''countries.items['' @ str_int (int i) @ ''].title'')
                                          errors
                                 | _ \<Rightarrow> errors))
                           errors (enumerate 0 (take 5 xs))
                     | _ \<Rightarrow> errors)
             | _ \<Rightarrow> expect_obj (json resp) ''countries.root'' errors)
      in \<lparr>status = (if errors = [] then PASS else FAIL), errors = errors,
          context_updates = []\<rparr>)"

definition test_subtitles :: "transport \<Rightarrow> TestOutcome" where
  "test_subtitles http =
     (let errors = [];
          resp = http ''content_subtitles'';
          errors = require (json resp \<noteq> JNull) ''response is not JSON'' errors;
          errors =
            (case json resp of
               JObj d \<Rightarrow>
                 let errors =
                       (if has_key d ''status'' \<and> dget d ''status'' \<noteq> JNull
                        then expect_int (dget d ''status'') ''subtitles.status'' errors
                        else errors);
                     items = dget d ''items'';
                     errors = expect_list items ''subtitles.items'' errors
                 in (case items of
                       JArr xs \<Rightarrow>
                         foldl (\<lambda>errors (i, it).
                             let errors = expect_obj it
                                            (''subtitles.items['' @ str_int (int i) @ '']'') errors
                             in (case it of
                                   JObj itd \<Rightarrow>
                                     let errors =
                                           (if has_key itd ''id'' \<and> dget itd ''id'' \<noteq> JNull then
                                              let vid = dget itd ''id''
                                              in if isinstance_bool vid
                                                    \<or> \<not> (isinstance_int vid \<or> isinstance_str vid)
                                                 then errors @ [''subtitles.items[''
                                                        @ str_int (int i)
                                                        @ ''].id: expected int|string, got ''
                                                        @ type_name vid]
                                                 else errors
                                            else errors);
                                         errors =
                                           (if has_key itd ''lang'' \<and> dget itd ''lang'' \<noteq> JNull
                                            then expect_str (dget itd ''lang'')
                                                   (''subtitles.items['' @ str_int (int i)
                                                      @ ''].lang'') errors
                                            else errors)
                                     in if has_key itd ''title'' \<and> dget itd ''title'' \<noteq> JNull
                                        then expect_str (dget itd ''title'')
                                               (''subtitles.items['' @ str_int (int i)
                                                  @ ''].title'') errors
                                        else errors
                                 | _ \<Rightarrow> errors))
                           errors (enumerate 0 (take 5 xs))
                     | _ \<Rightarrow> errors)
             | _ \<Rightarrow> expect_obj (json resp) ''subtitles.root'' errors)
      in \<lparr>status = (if errors = [] then PASS else FAIL), errors = errors,
          context_updates = []\<rparr>)"

definition test_search :: "transport \<Rightarrow> TestOutcome" where
  "test_search http =
     (let errors = [];
          resp = http ''content_search'';
          errors = require (json resp \<noteq> JNull) ''response is not JSON'' errors;
          errors =
            (case json resp of
               JObj d \<Rightarrow>
                 let items = dget d ''items''
                 in expect_list items ''items'' errors
             | _ \<Rightarrow> expect_obj (json resp) ''root'' errors)
      in \<lparr>status = (if errors = [] then PASS else FAIL), errors = errors,
          context_updates = []\<rparr>)"

definition test_similar :: "transport \<Rightarrow> TestOutcome" where
  "test_similar http =
     (let errors = [];
          resp = http ''content_similar'';
          errors = require (json resp \<noteq> JNull) ''response is not JSON'' errors;
          errors =
            (case json resp of
               JObj d \<Rightarrow>
                 let items = dget d ''items''
                 in expect_list items ''items'' errors
             | _ \<Rightarrow> expect_obj (json resp) ''root'' errors)
      in \<lparr>status = (if errors = [] then PASS else FAIL), errors = errors,
          context_updates = []\<rparr>)"

text \<open>
  \<^verbatim>\<open>test_shortcut\<close>: the shortcut's name and the optional genre go into the request and into
  the snapshot id.
\<close>

definition test_shortcut :: "transport \<Rightarrow> string \<Rightarrow> string option \<Rightarrow> TestOutcome" where
  "test_shortcut http name genre =
     (let errors = [];
          snap_suffix = (if genre \<noteq> None then ''_genre'' else []);
          resp = http (''content_'' @ name @ snap_suffix);
          errors = require (json resp \<noteq> JNull) ''response is not JSON'' errors;
          errors =
            (case json resp of
               JObj d \<Rightarrow>
                 let items = dget d ''items''
                 in expect_list items ''items'' errors
             | _ \<Rightarrow> expect_obj (json resp) ''root'' errors)
      in \<lparr>status = (if errors = [] then PASS else FAIL), errors = errors,
          context_updates = []\<rparr>)"

definition test_trailer :: "transport \<Rightarrow> TestOutcome" where
  "test_trailer http =
     (let errors = [];
          resp = http ''content_trailer'';
          errors = require (json resp \<noteq> JNull) ''response is not JSON'' errors;
          errors =
            (case json resp of
               JObj d \<Rightarrow>
                 let errors =
                       (if has_key d ''status'' \<and> dget d ''status'' \<noteq> JNull
                        then expect_int (dget d ''status'') ''status'' errors
                        else errors);
                     tr = dget d ''trailer''
                 in if tr \<noteq> JNull then
                      (case tr of
                         JObj trd \<Rightarrow>
                           let tid = dget trd ''id'';
                               errors =
                                 (if (tid \<noteq> JNull \<and> \<not> (isinstance_str tid \<or> isinstance_int tid))
                                     \<or> isinstance_bool tid
                                  then errors @ [''trailer.id: expected string|int, got ''
                                                   @ type_name tid]
                                  else errors);
                               errors =
                                 (if has_key trd ''url'' \<and> dget trd ''url'' \<noteq> JNull
                                  then expect_str (dget trd ''url'') ''trailer.url'' errors
                                  else errors)
                           in if has_key trd ''files'' \<and> dget trd ''files'' \<noteq> JNull
                              then expect_list (dget trd ''files'') ''trailer.files'' errors
                              else errors
                       | JArr trs \<Rightarrow>
                           (case trs of
                              [] \<Rightarrow> errors
                            | t0 # rest \<Rightarrow>
                                let errors = expect_obj t0 ''trailer[0]'' errors
                                in (case t0 of
                                      JObj t0d \<Rightarrow>
                                        let tid = dget t0d ''id'';
                                            errors =
                                              (if tid \<noteq> JNull
                                                  \<and> (isinstance_bool tid
                                                       \<or> \<not> (isinstance_str tid \<or> isinstance_int tid))
                                               then errors
                                                      @ [''trailer[0].id: expected string|int, got ''
                                                           @ type_name tid]
                                               else errors)
                                        in if has_key t0d ''url'' \<and> dget t0d ''url'' \<noteq> JNull
                                           then expect_str (dget t0d ''url'') ''trailer[0].url'' errors
                                           else errors
                                    | _ \<Rightarrow> errors))
                       | _ \<Rightarrow> errors @ [''trailer: expected object or array, got ''
                                           @ type_name tr])
                    else errors
             | _ \<Rightarrow> expect_obj (json resp) ''root'' errors)
      in \<lparr>status = (if errors = [] then PASS else FAIL), errors = errors,
          context_updates = []\<rparr>)"

definition test_comments :: "transport \<Rightarrow> TestOutcome" where
  "test_comments http =
     (let errors = [];
          resp = http ''content_comments'';
          errors = require (json resp \<noteq> JNull) ''response is not JSON'' errors;
          errors =
            (case json resp of
               JObj d \<Rightarrow>
                 let errors = expect_int (dget d ''status'') ''status'' errors;
                     comments = dget d ''comments''
                 in expect_list comments ''comments'' errors
             | _ \<Rightarrow> expect_obj (json resp) ''root'' errors)
      in \<lparr>status = (if errors = [] then PASS else FAIL), errors = errors,
          context_updates = []\<rparr>)"

definition test_vote_mutating :: "transport \<Rightarrow> TestOutcome" where
  "test_vote_mutating http =
     (let errors = [];
          resp = http ''content_vote_like'';
          errors = require (json resp \<noteq> JNull) ''response is not JSON'' errors;
          errors =
            (case json resp of
               JObj d \<Rightarrow> expect_bool (dget d ''voted'') ''voted'' errors
             | _ \<Rightarrow> expect_obj (json resp) ''root'' errors)
      in \<lparr>status = (if errors = [] then PASS else FAIL), errors = errors,
          context_updates = []\<rparr>)"

subsection \<open>Collections, references, TV and watching\<close>

definition test_collections :: "transport \<Rightarrow> TestOutcome \<times> json" where
  "test_collections http =
     (let errors = [];
          resp = http ''collections_list'';
          errors = require (json resp \<noteq> JNull) ''response is not JSON'' errors;
          collection_id = JNull;
          (collection_id, errors) =
            (case json resp of
               JObj d \<Rightarrow>
                 let items = dget d ''items'';
                     errors = expect_list items ''items'' errors
                 in (case items of
                       JArr (c0 # rest) \<Rightarrow>
                         (case c0 of
                            JObj c0d \<Rightarrow>
                              if isinstance_int (dget c0d ''id'') then (dget c0d ''id'', errors)
                              else (collection_id, errors)
                          | _ \<Rightarrow> (collection_id, errors))
                     | _ \<Rightarrow> (collection_id, errors))
             | _ \<Rightarrow> (collection_id, expect_obj (json resp) ''root'' errors));
          errors = (if collection_id = JNull
                    then errors @ [''could not pick collectionId from /v1/collections'']
                    else errors)
      in (\<lparr>status = (if errors = [] then PASS else FAIL), errors = errors,
           context_updates = []\<rparr>, collection_id))"

text \<open>
  \<^verbatim>\<open>test_collections_sort\<close> tries the candidate sort keys in turn and stops at the first
  whose response is a normal payload; the source saves none of these attempts, so the
  attempt with the key \<open>k\<close> is the exchange \<open>collections_list_sort?sort=k\<close> here. It
  then repeats the request with the key it found.
\<close>

definition test_collections_sort :: "transport \<Rightarrow> TestOutcome" where
  "test_collections_sort http =
     (let errors = [];
          candidates = [''updated-'', ''created-'', ''views-'', ''watchers-''];
          used =
            find (\<lambda>sort_used.
                let resp = http (''collections_list_sort?sort='' @ sort_used)
                in \<not> (HttpResponse.status resp \<noteq> 200 \<or> \<not> isinstance_dict (json resp))
                   \<and> \<not> (case json resp of
                            JObj d \<Rightarrow> \<not> isinstance_list (dget d ''items'')
                          | _ \<Rightarrow> True))
              candidates
      in (case used of
            None \<Rightarrow>
              \<lparr>status = FAIL,
               errors = errors @ [''collections sort: none of the candidate sort values ''
                                    @ ''returned a normal {items: []} payload''],
               context_updates = []\<rparr>
          | Some sort_used \<Rightarrow>
              let resp_ok = http ''collections_list_sort'';
                  errors = require (HttpResponse.status resp_ok = 200)
                             (''collections sort: expected HTTP 200, got ''
                                @ str_int (HttpResponse.status resp_ok)) errors;
                  errors = require (json resp_ok \<noteq> JNull)
                             ''collections sort: response is not JSON'' errors;
                  errors =
                    (case json resp_ok of
                       JObj d \<Rightarrow>
                         let errors =
                               (if has_key d ''status'' \<and> dget d ''status'' \<noteq> JNull
                                then expect_int (dget d ''status'') ''collections.sort.status'' errors
                                else errors)
                         in expect_list (dget d ''items'') ''collections.sort.items'' errors
                     | _ \<Rightarrow> expect_obj (json resp_ok) ''collections.sort.root'' errors)
              in \<lparr>status = (if errors = [] then PASS else FAIL), errors = errors,
                  context_updates = [(''sort'', JStr sort_used)]\<rparr>))"

definition test_collection_items :: "transport \<Rightarrow> TestOutcome" where
  "test_collection_items http =
     (let errors = [];
          resp = http ''collections_view'';
          errors = require (json resp \<noteq> JNull) ''response is not JSON'' errors;
          errors =
            (case json resp of
               JObj d \<Rightarrow>
                 let items = dget d ''items''
                 in expect_list items ''items'' errors
             | _ \<Rightarrow> expect_obj (json resp) ''root'' errors)
      in \<lparr>status = (if errors = [] then PASS else FAIL), errors = errors,
          context_updates = []\<rparr>)"

definition test_references :: "transport \<Rightarrow> TestOutcome" where
  "test_references http =
     (let errors = [];
          errors =
            foldl (\<lambda>errors name.
                let resp = http (''ref_'' @ name);
                    errors = require (json resp \<noteq> JNull)
                               (name @ '': response is not JSON'') errors
                in (case json resp of
                      JObj d \<Rightarrow>
                        let errors =
                              (if has_key d ''status''
                               then expect_int (dget d ''status'') (name @ ''.status'') errors
                               else errors)
                        in expect_list (dget d ''items'') (name @ ''.items'') errors
                    | _ \<Rightarrow> expect_obj (json resp) (name @ ''.root'') errors))
              errors
              [''server-location'', ''streaming-type'', ''voiceover-type'', ''voiceover-author'',
               ''video-quality'']
      in \<lparr>status = (if errors = [] then PASS else FAIL), errors = errors,
          context_updates = []\<rparr>)"

definition test_tv :: "transport \<Rightarrow> TestOutcome" where
  "test_tv http =
     (let errors = [];
          resp = http ''tv_channels'';
          errors = require (json resp \<noteq> JNull) ''tv: response is not JSON'' errors;
          errors =
            (case json resp of
               JObj d \<Rightarrow>
                 let errors = expect_int (dget d ''status'') ''tv.status'' errors
                 in expect_list (dget d ''channels'') ''tv.channels'' errors
             | _ \<Rightarrow> expect_obj (json resp) ''tv.root'' errors)
      in \<lparr>status = (if errors = [] then PASS else FAIL), errors = errors,
          context_updates = []\<rparr>)"

definition test_watching :: "transport \<Rightarrow> TestOutcome \<times> json" where
  "test_watching http =
     (let errors = [];
          resp = http ''watching_info'';
          errors = require (json resp \<noteq> JNull) ''watching: response is not JSON'' errors;
          errors =
            (case json resp of
               JObj d \<Rightarrow>
                 if has_key d ''status''
                 then expect_int (dget d ''status'') ''watching.status'' errors
                 else errors
             | _ \<Rightarrow> expect_obj (json resp) ''watching.root'' errors);
          errors =
            foldl (\<lambda>errors name.
                let r = http (''watching_'' @ name);
                    errors = require (json r \<noteq> JNull)
                               (''watching/'' @ name @ '': response is not JSON'') errors
                in (case json r of
                      JObj d \<Rightarrow>
                        expect_list (dget d ''items'') (''watching/'' @ name @ ''.items'') errors
                    | _ \<Rightarrow> expect_obj (json r) (''watching/'' @ name @ ''.root'') errors))
              errors [''movies'', ''serials'']
      in (\<lparr>status = (if errors = [] then PASS else FAIL), errors = errors,
           context_updates = []\<rparr>, JNull))"

definition test_watching_mutating :: "transport \<Rightarrow> TestOutcome" where
  "test_watching_mutating http =
     (let errors = [];
          r_mt = http ''watching_marktime'';
          errors = require (case json r_mt of
                              JObj d \<Rightarrow> isinstance_int (dget d ''status'')
                            | _ \<Rightarrow> False)
                     ''marktime: expected {status:int}'' errors;
          r_t = http ''watching_toggle'';
          errors = require (case json r_t of
                              JObj d \<Rightarrow> isinstance_int (dget d ''status'')
                            | _ \<Rightarrow> False)
                     ''toggle: expected {status:int,...}'' errors
      in \<lparr>status = (if errors = [] then PASS else FAIL), errors = errors,
          context_updates = []\<rparr>)"

definition test_watchlist_toggle_mutating :: "transport \<Rightarrow> TestOutcome" where
  "test_watchlist_toggle_mutating http =
     (let errors = [];
          errors =
            foldl (\<lambda>errors i.
                let r = http (''watchlist_toggle_'' @ str_int i)
                in require (case json r of
                              JObj d \<Rightarrow> isinstance_int (dget d ''status'')
                            | _ \<Rightarrow> False)
                     ''togglewatchlist: expected {status:int,...}'' errors)
              errors [1, 2]
      in \<lparr>status = (if errors = [] then PASS else FAIL), errors = errors,
          context_updates = []\<rparr>)"

subsection \<open>History\<close>

definition test_history :: "transport \<Rightarrow> TestOutcome \<times> (string \<times> json) list" where
  "test_history http =
     (let errors = [];
          resp = http ''history_list'';
          errors = require (json resp \<noteq> JNull) ''history: response is not JSON'' errors;
          picked = [(''media_id'', JNull), (''item_id'', JNull)];
          (picked, errors) =
            (case json resp of
               JObj d \<Rightarrow>
                 if has_key d ''history'' \<and> dget d ''history'' \<noteq> JNull then
                   let errors = expect_list (dget d ''history'') ''history.history'' errors
                   in (case dget d ''history'' of
                         JArr (h0 # rest) \<Rightarrow>
                           (case h0 of
                              JObj h0d \<Rightarrow>
                                let it = dget h0d ''item'';
                                    picked =
                                      (case it of
                                         JObj itd \<Rightarrow>
                                           if isinstance_int (dget itd ''id'')
                                           then dset picked ''item_id'' (dget itd ''id'')
                                           else picked
                                       | _ \<Rightarrow> picked);
                                    md = dget h0d ''media'';
                                    picked =
                                      (case md of
                                         JObj mdd \<Rightarrow>
                                           if isinstance_int (dget mdd ''id'')
                                           then dset picked ''media_id'' (dget mdd ''id'')
                                           else picked
                                       | _ \<Rightarrow> picked)
                                in (picked, errors)
                            | _ \<Rightarrow> (picked, errors))
                       | _ \<Rightarrow> (picked, errors))
                 else (picked, errors @ [''history response missing 'history' field''])
             | _ \<Rightarrow> (picked, expect_obj (json resp) ''history.root'' errors))
      in (\<lparr>status = (if errors = [] then PASS else FAIL), errors = errors,
           context_updates = []\<rparr>, picked))"

text \<open>
  \<^verbatim>\<open>test_history_mutating\<close> clears the history of the media, the season and the item it is
  given; an identifier that is \<^verbatim>\<open>None\<close> is an error of the test.
\<close>

definition test_history_mutating :: "transport \<Rightarrow> json \<Rightarrow> json \<Rightarrow> json \<Rightarrow> TestOutcome" where
  "test_history_mutating http media_id season_id item_id =
     (let errors = [];
          errors =
            (if media_id \<noteq> JNull then
               let r = http ''history_clear_for_media''
               in require (HttpResponse.status r = 200
                           \<and> (json r = JNull
                                \<or> (case json r of
                                      JObj d \<Rightarrow> isinstance_int (dget d ''status'')
                                    | _ \<Rightarrow> False)))
                    ''clear-for-media: expected HTTP 200 with JSON null (or {status:int})'' errors
             else errors @ [''clear-for-media skipped: no media_id available'']);
          errors =
            (if season_id \<noteq> JNull then
               let r = http ''history_clear_for_season''
               in require (HttpResponse.status r = 200
                           \<and> (json r = JNull
                                \<or> (case json r of
                                      JObj d \<Rightarrow> isinstance_int (dget d ''status'')
                                    | _ \<Rightarrow> False)))
                    ''clear-for-season: expected HTTP 200 with JSON null (or {status:int})'' errors
             else errors @ [''clear-for-season skipped: no season_id available'']);
          errors =
            (if item_id \<noteq> JNull then
               let r = http ''history_clear_for_item''
               in require (HttpResponse.status r = 200
                           \<and> (json r = JNull
                                \<or> (case json r of
                                      JObj d \<Rightarrow> isinstance_int (dget d ''status'')
                                    | _ \<Rightarrow> False)))
                    ''clear-for-item: expected HTTP 200 with JSON null (or {status:int})'' errors
             else errors @ [''clear-for-item skipped: no item_id available''])
      in \<lparr>status = (if errors = [] then PASS else FAIL), errors = errors,
          context_updates = []\<rparr>)"

subsection \<open>Devices\<close>

definition test_device :: "transport \<Rightarrow> TestOutcome \<times> json" where
  "test_device http =
     (let errors = [];
          resp = http ''device_list'';
          errors = require (json resp \<noteq> JNull) ''device: response is not JSON'' errors;
          device_id = JNull;
          (device_id, errors) =
            (case json resp of
               JObj d \<Rightarrow>
                 let devs = dget d ''devices'';
                     errors = expect_list devs ''device.devices'' errors
                 in (case devs of
                       JArr (d0 # rest) \<Rightarrow>
                         let device_id =
                               (case d0 of
                                  JObj d0d \<Rightarrow>
                                    if isinstance_int (dget d0d ''id'') then dget d0d ''id''
                                    else device_id
                                | _ \<Rightarrow> device_id);
                             errors =
                               (case d0 of
                                  JObj d0d \<Rightarrow>
                                    if has_key d0d ''is_browser'' \<and> dget d0d ''is_browser'' \<noteq> JNull
                                    then expect_bool (dget d0d ''is_browser'')
                                           ''device.devices[0].is_browser'' errors
                                    else errors
                                | _ \<Rightarrow> errors)
                         in (device_id, errors)
                     | _ \<Rightarrow> (device_id, errors))
             | _ \<Rightarrow> (device_id, expect_obj (json resp) ''device.root'' errors));
          info = http ''device_info'';
          errors = require (json info \<noteq> JNull) ''device/info: response is not JSON'' errors;
          (device_id, errors) =
            (case json info of
               JObj d \<Rightarrow>
                 let dev = dget d ''device''
                 in (case dev of
                       JObj devd \<Rightarrow>
                         if isinstance_int (dget devd ''id'') then (dget devd ''id'', errors)
                         else (device_id, errors)
                     | _ \<Rightarrow> (device_id, errors))
             | _ \<Rightarrow> (device_id, expect_obj (json info) ''device/info.root'' errors))
      in if device_id = JNull then
           (\<lparr>status = FAIL,
             errors = errors @ [''could not pick deviceId from /v1/device or /v1/device/info''],
             context_updates = []\<rparr>, JNull)
         else
           let dr = http ''device_get'';
               errors = require (json dr \<noteq> JNull) ''device/{id}: response is not JSON'' errors;
               s = http ''device_settings_get'';
               errors = require (json s \<noteq> JNull) ''device/{id}/settings: response is not JSON''
                          errors;
               errors =
                 (case json s of
                    JObj d \<Rightarrow>
                      let errors = expect_int (dget d ''status'') ''device.settings.status'' errors;
                          st = dget d ''settings''
                      in if st \<noteq> JNull then expect_obj st ''device.settings.settings'' errors
                         else errors
                  | _ \<Rightarrow> expect_obj (json s) ''device/settings.root'' errors)
           in (\<lparr>status = (if errors = [] then PASS else FAIL), errors = errors,
                context_updates = []\<rparr>, device_id))"

text \<open>
  \<^verbatim>\<open>_extract_setting_value_int\<close>: the current value of a device setting, a boolean as 0 or
  1, a list of options as the id of the selected option (\<^verbatim>\<open>selected in (1, True)\<close>) or else
  of the first option with an integer id.
\<close>

definition extract_setting_value_int :: "json \<Rightarrow> string \<Rightarrow> json" where
  "extract_setting_value_int settings_map key =
     (case settings_map of
        JObj sm \<Rightarrow>
          (case dget sm key of
             JObj entry \<Rightarrow>
               let val = dget entry ''value''
               in (case val of
                     JBool b \<Rightarrow> JInt (if b then 1 else 0)
                   | JInt n \<Rightarrow> val
                   | JArr opts \<Rightarrow>
                       (case find (\<lambda>opt. case opt of
                                      JObj od \<Rightarrow>
                                        eq_number (dget od ''selected'') (JInt 1)
                                        \<and> isinstance_int (dget od ''id'')
                                    | _ \<Rightarrow> False) opts of
                          Some (JObj od) \<Rightarrow> dget od ''id''
                        | _ \<Rightarrow> first_int_id opts)
                   | _ \<Rightarrow> JNull)
           | _ \<Rightarrow> JNull)
      | _ \<Rightarrow> JNull)"

text \<open>
  \<^verbatim>\<open>test_device_mutating\<close> reads the settings again (an exchange the source does not save,
  \<open>device_settings_get (mutating)\<close> here) and sends the current values back. It stops at the
  first required key that has no value.
\<close>

definition test_device_mutating :: "transport \<Rightarrow> TestOutcome" where
  "test_device_mutating http =
     (let errors = [];
          r_notify = http ''device_notify'';
          errors = require (case json r_notify of
                              JObj d \<Rightarrow> isinstance_int (dget d ''status'')
                            | _ \<Rightarrow> False)
                     ''device/notify: expected {status:int}'' errors;
          s = http ''device_settings_get (mutating)'';
          settings_map = (case json s of JObj d \<Rightarrow> dget d ''settings'' | _ \<Rightarrow> JNull);
          required_keys = [''supportSsl'', ''supportHevc'', ''supportHdr'', ''support4k'',
                           ''mixedPlaylist'', ''streamingType'', ''serverLocation'']
      in (case find (\<lambda>k. extract_setting_value_int settings_map k = JNull) required_keys of
            Some k \<Rightarrow>
              \<lparr>status = FAIL,
               errors = errors @ [''device settings update skipped: could not extract int value for ''
                                    @ k],
               context_updates = []\<rparr>
          | None \<Rightarrow>
              let r_upd = http ''device_settings_update'';
                  errors = require (case json r_upd of
                                      JObj d \<Rightarrow> isinstance_int (dget d ''status'')
                                    | _ \<Rightarrow> False)
                             ''device settings update: expected {status:int}'' errors
              in \<lparr>status = (if errors = [] then PASS else FAIL), errors = errors,
                  context_updates = []\<rparr>))"

subsection \<open>Items: listing, details and media\<close>

definition pick_first_item_id :: "json \<Rightarrow> json" where
  "pick_first_item_id items_resp =
     (case items_resp of
        JObj d \<Rightarrow>
          let items = dget d ''items''
          in (case items of
                JArr (it0 # rest) \<Rightarrow>
                  (case it0 of
                     JObj it0d \<Rightarrow> if isinstance_int (dget it0d ''id'') then dget it0d ''id'' else JNull
                   | _ \<Rightarrow> JNull)
              | _ \<Rightarrow> JNull)
      | _ \<Rightarrow> JNull)"

definition test_items_listing :: "transport \<Rightarrow> TestOutcome \<times> json" where
  "test_items_listing http =
     (let errors = [];
          resp = http ''content_items'';
          errors = require (json resp \<noteq> JNull) ''response is not JSON'' errors;
          item_id = pick_first_item_id (json resp);
          errors =
            (case json resp of
               JObj d \<Rightarrow>
                 let errors =
                       (if has_key d ''status'' \<and> dget d ''status'' \<noteq> JNull
                        then expect_int (dget d ''status'') ''status'' errors
                        else errors);
                     items = dget d ''items'';
                     errors = expect_list items ''items'' errors;
                     errors =
                       (case items of
                          JArr (it0 # rest) \<Rightarrow>
                            let errors = expect_obj it0 ''items[0]'' errors
                            in (case it0 of
                                  JObj it0d \<Rightarrow>
                                    let errors = expect_int (dget it0d ''id'') ''items[0].id'' errors;
                                        errors = expect_str (dget it0d ''title'') ''items[0].title''
                                                   errors
                                    in expect_str (dget it0d ''type'') ''items[0].type'' errors
                                | _ \<Rightarrow> errors)
                        | _ \<Rightarrow> errors);
                     pag = dget d ''pagination''
                 in if pag \<noteq> JNull then
                      let errors = expect_obj pag ''pagination'' errors
                      in (case pag of
                            JObj pagd \<Rightarrow>
                              let errors = expect_int (dget pagd ''total'') ''pagination.total'' errors;
                                  errors = expect_int (dget pagd ''current'') ''pagination.current''
                                             errors
                              in expect_int (dget pagd ''perpage'') ''pagination.perpage'' errors
                          | _ \<Rightarrow> errors)
                    else errors
             | _ \<Rightarrow> expect_obj (json resp) ''root'' errors);
          errors = (if item_id = JNull
                    then errors @ [''could not pick itemId from /v1/items response'']
                    else errors)
      in (\<lparr>status = (if errors = [] then PASS else FAIL), errors = errors,
           context_updates = []\<rparr>, item_id))"

definition test_items_listing_filters :: "transport \<Rightarrow> TestOutcome" where
  "test_items_listing_filters http =
     (let errors = [];
          resp = http ''content_items_filters'';
          errors = require (HttpResponse.status resp = 200)
                     (''items filters: expected HTTP 200, got ''
                        @ str_int (HttpResponse.status resp)) errors;
          errors = require (json resp \<noteq> JNull) ''items filters: response is not JSON'' errors;
          errors =
            (case json resp of
               JObj d \<Rightarrow>
                 let errors =
                       (if has_key d ''status'' \<and> dget d ''status'' \<noteq> JNull
                        then expect_int (dget d ''status'') ''items_filters.status'' errors
                        else errors)
                 in expect_list (dget d ''items'') ''items_filters.items'' errors
             | _ \<Rightarrow> expect_obj (json resp) ''items_filters.root'' errors)
      in \<lparr>status = (if errors = [] then PASS else FAIL), errors = errors,
          context_updates = []\<rparr>)"

text \<open>
  \<^verbatim>\<open>_pick_media_id_from_item\<close>: the first video with an integer id, else the first
  episode with an integer id of the first season that has one.
\<close>

definition pick_media_id_from_item :: "json \<Rightarrow> json" where
  "pick_media_id_from_item item =
     (case item of
        JObj d \<Rightarrow>
          let videos = dget d ''videos'';
              from_videos = (case videos of JArr vs \<Rightarrow> first_int_id vs | _ \<Rightarrow> JNull)
          in if from_videos \<noteq> JNull then from_videos
             else
               let seasons = dget d ''seasons''
               in (case seasons of
                     JArr ss \<Rightarrow>
                       (case filter (\<lambda>e. e \<noteq> JNull)
                               (map (\<lambda>s. case s of
                                       JObj sd \<Rightarrow>
                                         (case dget sd ''episodes'' of
                                            JArr es \<Rightarrow> first_int_id es
                                          | _ \<Rightarrow> JNull)
                                     | _ \<Rightarrow> JNull) ss) of
                          [] \<Rightarrow> JNull
                        | e # rest \<Rightarrow> e)
                   | _ \<Rightarrow> JNull)
      | _ \<Rightarrow> JNull)"

definition pick_season_id_from_item :: "json \<Rightarrow> json" where
  "pick_season_id_from_item item =
     (case item of
        JObj d \<Rightarrow>
          let seasons = dget d ''seasons''
          in (case seasons of JArr ss \<Rightarrow> first_int_id ss | _ \<Rightarrow> JNull)
      | _ \<Rightarrow> JNull)"

definition test_item_details :: "transport \<Rightarrow> TestOutcome \<times> json" where
  "test_item_details http =
     (let errors = [];
          resp = http ''content_item_details'';
          errors = require (json resp \<noteq> JNull) ''response is not JSON'' errors;
          media_id = JNull;
          (media_id, errors) =
            (case json resp of
               JObj d \<Rightarrow>
                 let item = dget d ''item'';
                     errors = expect_obj item ''item'' errors
                 in (case item of
                       JObj itemd \<Rightarrow>
                         let errors = expect_int (dget itemd ''id'') ''item.id'' errors;
                             errors = expect_str (dget itemd ''title'') ''item.title'' errors;
                             errors = expect_str (dget itemd ''type'') ''item.type'' errors;
                             duration = dget itemd ''duration'';
                             errors =
                               (if duration \<noteq> JNull then
                                  let errors = expect_obj duration ''item.duration'' errors
                                  in (case duration of
                                        JObj dd \<Rightarrow>
                                          if has_key dd ''average'' \<and> dget dd ''average'' \<noteq> JNull
                                          then expect_num (dget dd ''average'')
                                                 ''item.duration.average'' errors
                                          else errors
                                      | _ \<Rightarrow> errors)
                                else errors)
                         in (pick_media_id_from_item item, errors)
                     | _ \<Rightarrow> (media_id, errors))
             | _ \<Rightarrow> (media_id, expect_obj (json resp) ''root'' errors));
          errors = (if media_id = JNull
                    then errors @ [''could not pick mediaId from item details ''
                                     @ ''(videos/seasons/episodes)'']
                    else errors)
      in (\<lparr>status = (if errors = [] then PASS else FAIL), errors = errors,
           context_updates = []\<rparr>, media_id))"

text \<open>
  \<^verbatim>\<open>test_media_links\<close> also returns the path of the first file and the stream type to ask
  for: the first of hls4, hls2, hls, http with a truthy URL, or http.
\<close>

definition test_media_links :: "transport \<Rightarrow> TestOutcome \<times> (string \<times> string) option" where
  "test_media_links http =
     (let errors = [];
          resp = http ''content_media_links'';
          errors = require (json resp \<noteq> JNull) ''response is not JSON'' errors;
          file_and_type = None;
          (file_and_type, errors) =
            (case json resp of
               JObj d \<Rightarrow>
                 let files = dget d ''files'';
                     errors = expect_list files ''files'' errors
                 in (case files of
                       JArr (f0 # rest) \<Rightarrow>
                         let errors = expect_obj f0 ''files[0]'' errors
                         in (case f0 of
                               JObj f0d \<Rightarrow>
                                 (case dget f0d ''file'' of
                                    JStr file \<Rightarrow>
                                      let urls = py_or (dget f0d ''urls'') (dget f0d ''url'');
                                          chosen_type =
                                            (case urls of
                                               JObj ud \<Rightarrow>
                                                 find (\<lambda>t. truthy (dget ud t))
                                                   [''hls4'', ''hls2'', ''hls'', ''http'']
                                             | _ \<Rightarrow> None)
                                      in (Some (file, case chosen_type of
                                                        Some t \<Rightarrow> t
                                                      | None \<Rightarrow> ''http''), errors)
                                  | _ \<Rightarrow>
                                      (file_and_type,
                                       errors @ [''files[0].file missing or not a string'']))
                             | _ \<Rightarrow> (file_and_type, errors))
                     | _ \<Rightarrow> (file_and_type, errors))
             | _ \<Rightarrow> (file_and_type, expect_obj (json resp) ''root'' errors))
      in (\<lparr>status = (if errors = [] then PASS else FAIL), errors = errors,
           context_updates = []\<rparr>, file_and_type))"

definition test_media_video_link :: "transport \<Rightarrow> TestOutcome" where
  "test_media_video_link http =
     (let errors = [];
          resp = http ''content_media_video_link'';
          errors = require (json resp \<noteq> JNull) ''response is not JSON'' errors;
          errors =
            (case json resp of
               JObj d \<Rightarrow> expect_str (dget d ''url'') ''url'' errors
             | _ \<Rightarrow> expect_obj (json resp) ''root'' errors)
      in \<lparr>status = (if errors = [] then PASS else FAIL), errors = errors,
          context_updates = []\<rparr>)"

subsection \<open>Bookmarks\<close>

text \<open>
  \<^verbatim>\<open>test_bookmarks_mutating\<close>: create a folder, find it in the list, add the item, list the
  folder and the item's folders, remove the item, remove the folder. Only a missing folder
  id stops the test early; every later step runs whatever the earlier ones reported.
\<close>

definition test_bookmarks_mutating :: "transport \<Rightarrow> TestOutcome" where
  "test_bookmarks_mutating http =
     (let errors = [];
          r_list_before = http ''bookmarks_list_before'';
          errors =
            (if (case json r_list_before of
                   JObj d \<Rightarrow> \<not> isinstance_list (dget d ''items'')
                 | _ \<Rightarrow> True)
             then errors @ [''bookmarks list: unexpected response (expected object with items[])'']
             else errors);
          r_create = http ''bookmarks_create_folder'';
          folder_id = JNull;
          folder_id =
            (case json r_create of
               JObj d \<Rightarrow>
                 let folder = dget d ''folder''
                 in (case folder of
                       JObj fd \<Rightarrow> if isinstance_int (dget fd ''id'') then dget fd ''id'' else folder_id
                     | _ \<Rightarrow> folder_id)
             | _ \<Rightarrow> folder_id)
      in if folder_id = JNull then
           \<lparr>status = FAIL,
            errors = errors @ [''failed to create bookmark folder (no folder.id)''],
            context_updates = []\<rparr>
         else
           let r_list_after = http ''bookmarks_list_after'';
               errors =
                 (case json r_list_after of
                    JObj d \<Rightarrow>
                      (case dget d ''items'' of
                         JArr fs \<Rightarrow>
                           let found =
                                 list_ex (\<lambda>f. case f of
                                            JObj fd \<Rightarrow> eq_number (dget fd ''id'') folder_id
                                          | _ \<Rightarrow> False) fs
                           in if \<not> found
                              then errors @ [''bookmarks list: created folder not found in items[]'']
                              else errors
                       | _ \<Rightarrow> errors @ [''bookmarks list: unexpected response after create''])
                  | _ \<Rightarrow> errors @ [''bookmarks list: unexpected response after create'']);
               r_add = http ''bookmarks_add_item'';
               errors =
                 (if (case json r_add of JObj d \<Rightarrow> dget d ''status'' = JNull | _ \<Rightarrow> True)
                  then errors @ [''bookmark add: unexpected response (expected object with status)'']
                  else errors);
               r_folder_items = http ''bookmarks_folder_items'';
               errors =
                 (if (case json r_folder_items of
                        JObj d \<Rightarrow> \<not> isinstance_list (dget d ''items'')
                      | _ \<Rightarrow> True)
                  then errors @ [''bookmarks folder items: unexpected response ''
                                   @ ''(expected object with items[])'']
                  else errors);
               r_item_folders = http ''bookmarks_item_folders'';
               errors =
                 (if (case json r_item_folders of
                        JObj d \<Rightarrow> \<not> isinstance_list (dget d ''folders'')
                      | _ \<Rightarrow> True)
                  then errors @ [''bookmarks get-item-folders: unexpected response ''
                                   @ ''(expected object with folders[])'']
                  else errors);
               r_rm_item = http ''bookmarks_remove_item'';
               errors =
                 (if (case json r_rm_item of JObj d \<Rightarrow> dget d ''status'' = JNull | _ \<Rightarrow> True)
                  then errors @ [''bookmark remove-item: unexpected response ''
                                   @ ''(expected object with status)'']
                  else errors);
               r_rm_folder = http ''bookmarks_remove_folder'';
               errors =
                 (if (case json r_rm_folder of JObj d \<Rightarrow> dget d ''status'' = JNull | _ \<Rightarrow> True)
                  then errors @ [''bookmark remove-folder: unexpected response ''
                                   @ ''(expected object with status)'']
                  else errors)
           in \<lparr>status = (if errors = [] then PASS else FAIL), errors = errors,
               context_updates = []\<rparr>)"

section \<open>The orchestrator (run\_tests.py)\<close>

text \<open>
  The world a run sees: the JSON parser, the file system, the environment variables and the
  transport.
\<close>

record world =
  json_loads :: "string \<Rightarrow> json option"
  files :: "string \<Rightarrow> string option"
  environ :: "string \<Rightarrow> string option"
  exchange :: transport

text \<open>A run records one triple per test: its id, its status and its errors.\<close>

type_synonym result = "string \<times> outcome_status \<times> string list"

definition add :: "string \<Rightarrow> TestOutcome \<Rightarrow> result list \<Rightarrow> result list" where
  "add test_id outc results = results @ [(test_id, status outc, errors outc)]"

text \<open>The truth value of an optional string: \<^verbatim>\<open>None\<close> and the empty string are false.\<close>

definition nonempty :: "string option \<Rightarrow> bool" where
  "nonempty x = (case x of None \<Rightarrow> False | Some s \<Rightarrow> s \<noteq> [])"

text \<open>\<^verbatim>\<open>str(x)\<close> for an integer or a boolean, the values an identifier can be.\<close>

definition str_id :: "json \<Rightarrow> string" where
  "str_id x =
     (case x of
        JInt n \<Rightarrow> str_int n
      | JBool b \<Rightarrow> (if b then ''True'' else ''False'')
      | _ \<Rightarrow> [])"

text \<open>
  \<^verbatim>\<open>_run_all\<close>. The result is the exit code and the results written to the summary file,
  \<open>None\<close> where the run ends before it writes one. The base URLs are not parameters: they
  only go into requests.
\<close>

definition run_all ::
  "world \<Rightarrow> string option \<Rightarrow> string \<Rightarrow> string option \<Rightarrow> string option \<Rightarrow> bool \<Rightarrow> bool \<Rightarrow> bool \<Rightarrow>
     string option \<Rightarrow> bool \<Rightarrow> int \<times> result list option" where
  "run_all w token_arg token_file client_id client_secret include_mutating include_destructive
     include_api2 api2_device_token api2_upload_report =
     (let (token, token_source) =
            resolve_access_token (json_loads w) (files w) (environ w) token_arg token_file
      in if \<not> nonempty token then (2, None)
         else
           let http = exchange w;
               results = [];
               results =
                 (if nonempty client_id \<and> nonempty client_secret
                  then add ''test-auth-oauth2-device-flow'' (test_oauth_device_flow_pending http)
                         results
                  else add ''test-auth-oauth2-device-flow''
                         \<lparr>status = SKIP, errors = [''client_id/client_secret not available''],
                          context_updates = []\<rparr> results);
               results = add ''test-user'' (test_user http) results;
               results = add ''test-references'' (test_references http) results;
               results = add ''test-tv'' (test_tv http) results;
               results = add ''test-content-types'' (fst (test_types http)) results;
               (o_genres, genre_id) = test_genres http;
               results = add ''test-content-genres'' o_genres results;
               results = add ''test-content-countries'' (test_countries http) results;
               results = add ''test-content-subtitles'' (test_subtitles http) results;
               (o_items, item_id) = test_items_listing http;
               results = add ''test-content-items'' o_items results;
               results = add ''test-content-items-filters'' (test_items_listing_filters http)
                           results
           in if item_id = JNull then (1, Some results)
              else
                let (o_det, media_id) = test_item_details http;
                    results = add ''test-content-item-details'' o_det results;
                    results = add ''test-content-search'' (test_search http) results;
                    results = add ''test-content-similar'' (test_similar http) results;
                    results =
                      foldl (\<lambda>results sc.
                          let results = add (''test-content-'' @ sc) (test_shortcut http sc None)
                                          results
                          in if genre_id \<noteq> JNull
                             then add (''test-content-'' @ sc @ ''-genre'')
                                    (test_shortcut http sc (Some (str_id genre_id))) results
                             else add (''test-content-'' @ sc @ ''-genre'')
                                    \<lparr>status = SKIP,
                                     errors = [''could not pick genre_id from /v1/genres''],
                                     context_updates = []\<rparr> results)
                        results [''fresh'', ''hot'', ''popular''];
                    results = add ''test-content-trailer'' (test_trailer http) results;
                    results = add ''test-content-comments'' (test_comments http) results;
                    results =
                      (if include_mutating
                       then add ''test-content-vote-mutating'' (test_vote_mutating http) results
                       else add ''test-content-vote-mutating''
                              \<lparr>status = SKIP,
                               errors = [''mutating tests disabled (enable with --include-mutating)''],
                               context_updates = []\<rparr> results);
                    results =
                      (if media_id \<noteq> JNull then
                         let (o_links, file_and_type) = test_media_links http;
                             results = add ''test-content-media-links'' o_links results
                         in if file_and_type \<noteq> None
                            then add ''test-content-media-video-link'' (test_media_video_link http)
                                   results
                            else results
                       else results);
                    (o_cols, col_id) = test_collections http;
                    results = add ''test-collections'' o_cols results;
                    results = add ''test-collections-sort'' (test_collections_sort http) results;
                    results =
                      (if col_id \<noteq> JNull
                       then add ''test-collections-view'' (test_collection_items http) results
                       else results);
                    results =
                      (if include_mutating
                       then add ''test-bookmarks-mutating'' (test_bookmarks_mutating http) results
                       else add ''test-bookmarks-mutating''
                              \<lparr>status = SKIP,
                               errors = [''mutating tests disabled (enable with --include-mutating)''],
                               context_updates = []\<rparr> results);
                    results = add ''test-watching'' (fst (test_watching http)) results;
                    results =
                      (if include_mutating then
                         (if media_id \<noteq> JNull
                          then add ''test-watching-mutating'' (test_watching_mutating http) results
                          else add ''test-watching-mutating''
                                 \<lparr>status = SKIP,
                                  errors = [''no media_id available for watching mutation tests''],
                                  context_updates = []\<rparr> results)
                       else add ''test-watching-mutating''
                              \<lparr>status = SKIP,
                               errors = [''mutating tests disabled (enable with --include-mutating)''],
                               context_updates = []\<rparr> results);
                    season_id = JNull;
                    serial_item_id = JNull;
                    serial_item_id =
                      (if include_mutating \<or> include_destructive
                       then let serial_resp = http ''content_items_serial''
                            in pick_first_item_id (json serial_resp)
                       else serial_item_id);
                    results =
                      (if include_mutating then
                         (if serial_item_id \<noteq> JNull
                          then add ''test-watchlist-toggle-mutating''
                                 (test_watchlist_toggle_mutating http) results
                          else add ''test-watchlist-toggle-mutating''
                                 \<lparr>status = SKIP,
                                  errors = [''could not pick serial item id from ''
                                              @ ''/v1/items?type=serial''],
                                  context_updates = []\<rparr> results)
                       else add ''test-watchlist-toggle-mutating''
                              \<lparr>status = SKIP,
                               errors = [''mutating tests disabled (enable with --include-mutating)''],
                               context_updates = []\<rparr> results);
                    season_id =
                      (if include_destructive \<and> serial_item_id \<noteq> JNull
                       then let serial_det = http ''serial_item_details''
                            in (case json serial_det of
                                  JObj d \<Rightarrow> pick_season_id_from_item (dget d ''item'')
                                | _ \<Rightarrow> season_id)
                       else season_id);
                    (o_hist, picked) = test_history http;
                    results = add ''test-history'' o_hist results;
                    results =
                      (if include_destructive
                       then add ''test-history-mutating''
                              (test_history_mutating http (dget picked ''media_id'') season_id
                                 (py_or (dget picked ''item_id'') item_id)) results
                       else add ''test-history-mutating''
                              \<lparr>status = SKIP,
                               errors = [''destructive tests disabled ''
                                           @ ''(enable with --include-destructive)''],
                               context_updates = []\<rparr> results);
                    (o_dev, dev_id) = test_device http;
                    results = add ''test-device'' o_dev results;
                    results =
                      (if include_mutating then
                         (if dev_id \<noteq> JNull
                          then add ''test-device-mutating'' (test_device_mutating http) results
                          else add ''test-device-mutating''
                                 \<lparr>status = SKIP, errors = [''no device_id available''],
                                  context_updates = []\<rparr> results)
                       else add ''test-device-mutating''
                              \<lparr>status = SKIP,
                               errors = [''mutating tests disabled (enable with --include-mutating)''],
                               context_updates = []\<rparr> results);
                    results =
                      (if include_api2 then
                         let (api2_search_outcome, api2_item_id) = test_api2_items_search http;
                             results = add ''test-api2-items-search'' api2_search_outcome results;
                             chosen_item_id = py_or api2_item_id item_id;
                             api2_item_outcome = test_api2_item_details http;
                             results = add ''test-api2-item-details'' api2_item_outcome results;
                             results = add ''test-api2-item-collections''
                                         (test_api2_item_collections http) results;
                             imdb_id = dget (context_updates api2_item_outcome) ''imdb_id'';
                             kp_id = dget (context_updates api2_item_outcome) ''kinopoisk_id'';
                             results =
                               (if isinstance_int imdb_id \<and> isinstance_int kp_id then
                                  let results = add ''test-api2-backdrop'' (test_api2_backdrop http)
                                                  results
                                  in add ''test-api2-imdb'' (test_api2_imdb http) results
                                else
                                  let results =
                                        add ''test-api2-backdrop''
                                          \<lparr>status = SKIP,
                                           errors = [''api2 backdrop skipped: could not extract ''
                                                       @ ''imdb_id/kinopoisk_id''],
                                           context_updates = []\<rparr> results
                                  in add ''test-api2-imdb''
                                       \<lparr>status = SKIP,
                                        errors = [''api2 imdb skipped: could not extract imdb_id''],
                                        context_updates = []\<rparr> results);
                             results =
                               (if nonempty api2_device_token then
                                  (if include_mutating
                                   then add ''test-api2-notifications-mutating''
                                          (test_api2_notifications_mutating http) results
                                   else add ''test-api2-notifications-mutating''
                                          \<lparr>status = SKIP,
                                           errors = [''mutating tests disabled ''
                                                       @ ''(enable with --include-mutating)''],
                                           context_updates = []\<rparr> results)
                                else add ''test-api2-notifications-mutating''
                                       \<lparr>status = SKIP,
                                        errors = [''api2 notifications skipped: provide ''
                                                    @ ''--api2-device-token''],
                                        context_updates = []\<rparr> results)
                         in if api2_upload_report \<and> include_mutating
                            then add ''test-api2-upload-report'' (test_api2_upload_report http)
                                   results
                            else if api2_upload_report \<and> \<not> include_mutating
                            then add ''test-api2-upload-report''
                                   \<lparr>status = SKIP,
                                    errors = [''mutating tests disabled ''
                                                @ ''(enable with --include-mutating)''],
                                    context_updates = []\<rparr> results
                            else add ''test-api2-upload-report''
                                   \<lparr>status = SKIP,
                                    errors = [''api2 upload_report skipped ''
                                                @ ''(enable with --api2-upload-report)''],
                                    context_updates = []\<rparr> results
                       else add ''test-api2''
                              \<lparr>status = SKIP,
                               errors = [''api2 tests not enabled (use --include-api2)''],
                               context_updates = []\<rparr> results)
                in (if list_all (\<lambda>(test_id, s, errs). s \<noteq> FAIL) results then 0 else 1,
                    Some results))"

section \<open>The device authenticator (extract\_token.py)\<close>

text \<open>
  Every failure of \<^verbatim>\<open>_device_flow\<close> is a \<^verbatim>\<open>RuntimeError\<close>. Its message is modelled as
  text, except for the message that prints a whole response, which carries the response.
\<close>

datatype runtime_error =
    RuntimeError string
  | UnexpectedOAuthError json

text \<open>
  What one pass through the body of the polling loop does with the response to its poll:
  it returns the token payload, raises, or goes on to \<^verbatim>\<open>time.sleep(poll_interval)\<close> with
  the interval it leaves in \<^verbatim>\<open>poll_interval\<close>.
\<close>

datatype iteration =
    Return json
  | Raise runtime_error
  | Sleep int

definition poll_body :: "HttpResponse \<Rightarrow> int \<Rightarrow> iteration" where
  "poll_body r_poll poll_interval =
     (if (case json r_poll of JObj d \<Rightarrow> isinstance_str (dget d ''access_token'') | _ \<Rightarrow> False)
      then Return (json r_poll)
      else if (case json r_poll of JObj d \<Rightarrow> isinstance_str (dget d ''error'') | _ \<Rightarrow> False)
      then
        (case json r_poll of
           JObj d \<Rightarrow>
             let err = dget d ''error''
             in if err = JStr ''authorization_pending'' then Sleep poll_interval
                else if err = JStr ''slow_down'' then Sleep (poll_interval + 5)
                else if err \<in> {JStr ''expired_token'', JStr ''access_denied''}
                then Raise (RuntimeError (''device_token: ''
                              @ (case err of JStr e \<Rightarrow> e | _ \<Rightarrow> [])))
                else Raise (UnexpectedOAuthError (json r_poll))
         | _ \<Rightarrow> Raise (UnexpectedOAuthError (json r_poll)))
      else Raise (RuntimeError (''device_token: unexpected response HTTP ''
                    @ str_int (HttpResponse.status r_poll) @ '': ''
                    @ take 200 (raw_text r_poll))))"

text \<open>
  The world of the authenticator: the response to the device-code request, the response
  to each poll (numbered from 1, as \<^verbatim>\<open>attempt\<close> counts them), the whole seconds each poll
  takes, and the clock when polling starts. Time is in whole seconds; waiting for a
  response and sleeping are what moves the clock.
\<close>

record auth_world =
  code_response :: HttpResponse
  poll_response :: "nat \<Rightarrow> HttpResponse"
  poll_seconds :: "nat \<Rightarrow> nat"
  clock :: int

text \<open>
  The polling loop. Besides the outcome (the token payload or the error raised) the model
  returns what the loop did: the number of polls sent and the sleeps taken, in order.
\<close>

type_synonym flow_result = "(runtime_error + json) \<times> nat \<times> int list"

partial_function (option) poll_loop ::
  "auth_world \<Rightarrow> int \<Rightarrow> int \<Rightarrow> int \<Rightarrow> nat \<Rightarrow> int list \<Rightarrow> flow_result option" where
  "poll_loop w deadline now poll_interval attempt sleeps =
     (if now < deadline then
        (case poll_body (poll_response w (attempt + 1)) poll_interval of
           Return payload \<Rightarrow> Some (Inr payload, attempt + 1, sleeps)
         | Raise e \<Rightarrow> Some (Inl e, attempt + 1, sleeps)
         | Sleep poll_interval' \<Rightarrow>
             poll_loop w deadline
               (now + int (poll_seconds w (attempt + 1)) + poll_interval')
               poll_interval' (attempt + 1) (sleeps @ [poll_interval']))
      else Some (Inl (RuntimeError (''device_token: timed out waiting for user authorization ''
                        @ ''(device code expired)'')), attempt, sleeps))"

text \<open>The integer a JSON integer or boolean stands for in arithmetic.\<close>

definition int_value :: "json \<Rightarrow> int" where
  "int_value x = (case x of JInt n \<Rightarrow> n | JBool b \<Rightarrow> (if b then 1 else 0) | _ \<Rightarrow> 0)"

text \<open>
  \<^verbatim>\<open>_device_flow\<close>: request a device code, check the response, then poll until the token
  arrives, an error is fatal or the code expires.
\<close>

definition device_flow :: "auth_world \<Rightarrow> flow_result option" where
  "device_flow w =
     (let r_code = code_response w
      in (case json r_code of
            JObj d \<Rightarrow>
              let code = dget d ''code'';
                  user_code = dget d ''user_code'';
                  verification_uri =
                    py_or (dget d ''verification_uri'') (dget d ''verification_uri_complete'');
                  expires_in = dget d ''expires_in'';
                  interval = dget d ''interval''
              in if \<not> isinstance_str code \<or> \<not> truthy code
                 then Some (Inl (RuntimeError (''device_code: missing 'code'' @ [CHR 0x27])), 0, [])
                 else if \<not> isinstance_str user_code \<or> \<not> truthy user_code
                 then Some (Inl (RuntimeError (''device_code: missing 'user_code''
                                    @ [CHR 0x27])), 0, [])
                 else if \<not> isinstance_str verification_uri \<or> \<not> truthy verification_uri
                 then Some (Inl (RuntimeError (''device_code: missing 'verification_uri''
                                    @ [CHR 0x27])), 0, [])
                 else if \<not> isinstance_int expires_in
                 then Some (Inl (RuntimeError (''device_code: missing/invalid 'expires_in''
                                    @ [CHR 0x27])), 0, [])
                 else if \<not> isinstance_int interval
                 then Some (Inl (RuntimeError (''device_code: missing/invalid 'interval''
                                    @ [CHR 0x27])), 0, [])
                 else
                   let deadline = clock w + max 1 (int_value expires_in);
                       poll_interval = max 1 (int_value interval);
                       attempt = 0
                   in poll_loop w deadline (clock w) poll_interval attempt []
          | _ \<Rightarrow>
              Some (Inl (RuntimeError (''device_code: expected JSON object, got HTTP ''
                           @ str_int (HttpResponse.status r_code) @ '': ''
                           @ take 200 (raw_text r_code))), 0, [])))"

section \<open>Vocabulary of the properties\<close>

text \<open>
  A place in a document: the keys and array indices that lead to it from the root, and the
  value found there (\<open>None\<close> when the path leads nowhere).
\<close>

datatype step = Key string | Idx nat

fun value_at :: "json \<Rightarrow> step list \<Rightarrow> json option" where
  "value_at x [] = Some x"
| "value_at (JObj d) (Key k # p) = (case map_of d k of None \<Rightarrow> None | Some v \<Rightarrow> value_at v p)"
| "value_at (JArr xs) (Idx i # p) = (if i < length xs then value_at (xs ! i) p else None)"
| "value_at x (s # p) = None"

fun sensitive_step :: "step \<Rightarrow> bool" where
  "sensitive_step (Key k) = (lower k \<in> SENSITIVE_JSON_KEYS)"
| "sensitive_step (Idx i) = False"

text \<open>A scalar is a value that is neither an array nor an object.\<close>

definition scalar :: "json \<Rightarrow> bool" where
  "scalar v = (\<not> isinstance_list v \<and> \<not> isinstance_dict v)"

text \<open>A token source is non-blank when it is given and is not only whitespace.\<close>

definition nonblank :: "string option \<Rightarrow> bool" where
  "nonblank x = (case x of None \<Rightarrow> False | Some s \<Rightarrow> strip s \<noteq> [])"

text \<open>A field of a token file holds a token when it is a non-blank string.\<close>

definition holds_token :: "json \<Rightarrow> bool" where
  "holds_token v = (case v of JStr t \<Rightarrow> strip t \<noteq> [] | _ \<Rightarrow> False)"

text \<open>
  The invariant of an outcome: PASS has no error, FAIL has at least one. SKIP is free to
  carry its reason.
\<close>

definition outcome_ok :: "TestOutcome \<Rightarrow> bool" where
  "outcome_ok outc =
     ((status outc = PASS \<longrightarrow> errors outc = []) \<and> (status outc = FAIL \<longrightarrow> errors outc \<noteq> []))"

text \<open>
  What a run returned: \<open>yields r Q\<close> says that the run wrote a summary and that its exit
  code and its results satisfy \<open>Q\<close>.
\<close>

definition yields :: "int \<times> result list option \<Rightarrow> (int \<Rightarrow> result list \<Rightarrow> bool) \<Rightarrow> bool" where
  "yields r Q = (\<exists>c rs. r = (c, Some rs) \<and> Q c rs)"





section \<open>Sample inputs\<close>

text \<open>A document with a sensitive key under an object and another inside an array.\<close>

definition sample_document :: json where
  "sample_document =
     JObj [(''user'', JObj [(''Code'', JArr [JInt 7]), (''name'', JStr ''n'')]),
           (''ids'', JArr [JInt 1, JObj [(''access_token'', JStr ''s'')]])]"

text \<open>The value \<^verbatim>\<open>null\<close> inside \<open>k\<close> nested arrays.\<close>

fun nested :: "nat \<Rightarrow> json" where
  "nested 0 = JNull"
| "nested (Suc k) = JArr [nested k]"

text \<open>
  The listing response of the specification's scenario, and a transport that answers every
  exchange with it.
\<close>

definition listing_response :: json where
  "listing_response =
     JObj [(''items'',
            JArr [JObj [(''id'', JInt 42), (''title'', JStr ''X''), (''type'', JStr ''movie'')]]),
           (''pagination'',
            JObj [(''total'', JInt 1), (''current'', JInt 1), (''perpage'', JInt 5)])]"

definition listing_transport :: transport where
  "listing_transport =
     (\<lambda>l. \<lparr>HttpResponse.status = 200, headers = [], raw_text = [], json = listing_response\<rparr>)"

text \<open>A transport whose every response has no JSON body.\<close>

definition silent_transport :: transport where
  "silent_transport =
     (\<lambda>l. \<lparr>HttpResponse.status = 500, headers = [], raw_text = [], json = JNull\<rparr>)"

text \<open>
  A world for token resolution: the token file holds one token on a line of its own, the
  environment holds the access-token variable or nothing, and nothing parses as JSON.
\<close>

definition token_files :: "string \<Rightarrow> string option" where
  "token_files = (\<lambda>path. Some (''# saved token'' @ [CHR 0x0A] @ ''file-token'' @ [CHR 0x0A]))"

definition token_environ :: "string \<Rightarrow> string option" where
  "token_environ = (\<lambda>v. if v = ENV_ACCESS_TOKEN then Some ''env-token'' else None)"

definition token_world :: "(string \<Rightarrow> string option) \<Rightarrow> (string \<Rightarrow> string option) \<Rightarrow> world" where
  "token_world fs env =
     \<lparr>json_loads = (\<lambda>s. None), files = fs, environ = env, exchange = silent_transport\<rparr>"

text \<open>
  A token file that is a pretty-printed JSON object without a token field, and a parser
  that reads it.
\<close>

definition pretty_file :: string where
  "pretty_file = ''{'' @ [CHR 0x0A] @ ''  \"note\": \"x\"'' @ [CHR 0x0A] @ ''}'' @ [CHR 0x0A]"

definition pretty_loads :: "string \<Rightarrow> json option" where
  "pretty_loads = (\<lambda>s. Some (JObj [(''note'', JStr ''x'')]))"

text \<open>Poll responses of the device flow: an OAuth error, and a token together with an error.\<close>

definition error_response :: "string \<Rightarrow> HttpResponse" where
  "error_response e =
     \<lparr>HttpResponse.status = 400, headers = [], raw_text = [], json = JObj [(''error'', JStr e)]\<rparr>"

definition token_and_slow_down :: HttpResponse where
  "token_and_slow_down =
     \<lparr>HttpResponse.status = 200, headers = [], raw_text = [],
      json = JObj [(''access_token'', JStr ''tok''), (''error'', JStr ''slow_down'')]\<rparr>"

text \<open>
  A world of the authenticator in which the server answers \<open>slow_down\<close> to the first poll
  and \<open>authorization_pending\<close> to every later one, each poll takes no time, and polling
  starts at time 0.
\<close>

definition slow_world :: auth_world where
  "slow_world =
     \<lparr>code_response = error_response ''unused'',
      poll_response = (\<lambda>n. if n = 1 then error_response ''slow_down''
                            else error_response ''authorization_pending''),
      poll_seconds = (\<lambda>n. 0),
      clock = 0\<rparr>"

text \<open>A world of the authenticator whose first poll is answered by a token with an error.\<close>

definition granting_world :: auth_world where
  "granting_world =
     \<lparr>code_response = error_response ''unused'',
      poll_response = (\<lambda>n. token_and_slow_down),
      poll_seconds = (\<lambda>n. 0),
      clock = 0\<rparr>"


section \<open>Redaction: the properties\<close>

lemma map_of_redact:
  "map_of (map (\<lambda>(k, v). if lower k \<in> SENSITIVE_JSON_KEYS then (k, REDACTED)
                          else (k, redact_json v)) d) k
   = (if lower k \<in> SENSITIVE_JSON_KEYS then map_option (\<lambda>_. REDACTED) (map_of d k)
      else map_option redact_json (map_of d k))"
  by (induction d) auto

text \<open>Along a path with no sensitive key, redacting and looking up commute.\<close>

lemma value_at_redact:
  "\<forall>s \<in> set p. \<not> sensitive_step s \<Longrightarrow>
     value_at (redact_json x) p = map_option redact_json (value_at x p)"
proof (induction p arbitrary: x)
  case Nil
  then show ?case by simp
next
  case (Cons s p)
  show ?case
  proof (cases s)
    case (Key k)
    with Cons show ?thesis
      by (cases x) (auto simp: map_of_redact split: option.splits)
  next
    case (Idx i)
    with Cons show ?thesis
      by (cases x) auto
  qed
qed

lemma value_at_append:
  "value_at x (p @ q) = (case value_at x p of None \<Rightarrow> None | Some y \<Rightarrow> value_at y q)"
proof (induction x p rule: value_at.induct)
  case (1 x)
  then show ?case by simp
next
  case (2 d k p)
  then show ?case by (simp split: option.splits)
next
  case (3 xs i p)
  then show ?case by simp
qed simp_all

lemma redact_sensitive_key:
  assumes "lower k \<in> SENSITIVE_JSON_KEYS"
  shows "value_at (redact_json y) [Key k]
         = (if value_at y [Key k] = None then None else Some REDACTED)"
  using assms by (cases y) (auto simp: map_of_redact split: option.splits)

text \<open>
  What redaction does at a place of the document reached by a path \<open>p\<close> that crosses no
  sensitive key.
\<close>

lemma redact_json_places:
  assumes clean: "\<forall>s \<in> set p. \<not> sensitive_step s"
  shows "(lower k \<in> SENSITIVE_JSON_KEYS \<longrightarrow> value_at x (p @ [Key k]) \<noteq> None \<longrightarrow>
            value_at (redact_json x) (p @ [Key k]) = Some REDACTED)
       \<and> (\<forall>d. value_at x p = Some (JObj d) \<longrightarrow>
            (\<exists>d'. value_at (redact_json x) p = Some (JObj d') \<and> map fst d' = map fst d))
       \<and> (\<forall>xs. value_at x p = Some (JArr xs) \<longrightarrow>
            (\<exists>ys. value_at (redact_json x) p = Some (JArr ys) \<and> length ys = length xs))
       \<and> (\<forall>v. value_at x p = Some v \<longrightarrow> scalar v \<longrightarrow> value_at (redact_json x) p = Some v)
       \<and> (value_at x p = None \<longrightarrow> value_at (redact_json x) p = None)"
proof -
  note at = value_at_redact [OF clean, of x]
  have a: "lower k \<in> SENSITIVE_JSON_KEYS \<longrightarrow> value_at x (p @ [Key k]) \<noteq> None \<longrightarrow>
            value_at (redact_json x) (p @ [Key k]) = Some REDACTED"
    by (auto simp: value_at_append at redact_sensitive_key split: option.splits)
  have b: "\<forall>d. value_at x p = Some (JObj d) \<longrightarrow>
            (\<exists>d'. value_at (redact_json x) p = Some (JObj d') \<and> map fst d' = map fst d)"
    by (auto simp: at comp_def case_prod_beta)
  have c: "\<forall>xs. value_at x p = Some (JArr xs) \<longrightarrow>
            (\<exists>ys. value_at (redact_json x) p = Some (JArr ys) \<and> length ys = length xs)"
    by (auto simp: at)
  have d: "\<forall>v. value_at x p = Some v \<longrightarrow> scalar v \<longrightarrow> value_at (redact_json x) p = Some v"
  proof (intro allI impI)
    fix v assume "value_at x p = Some v" "scalar v"
    then show "value_at (redact_json x) p = Some v"
      by (cases v) (auto simp: at scalar_def)
  qed
  have e: "value_at x p = None \<longrightarrow> value_at (redact_json x) p = None"
    by (simp add: at)
  from a b c d e show ?thesis by blast
qed

subsection \<open>Redaction under the recursion limit\<close>

lemma collect_map_Inr: "collect (map (\<lambda>x. Inr (g x)) xs) = Inr (map g xs)"
  by (induction xs) simp_all

lemma collect_Inl: "Inl e \<in> set rs \<Longrightarrow> collect rs = Inl RecursionError"
proof (induction rs rule: collect.induct)
  case (2 e' rs)
  then show ?case by (cases e') simp
next
  case (3 a rs)
  then show ?case by (auto split: sum.splits python_error.splits)
qed simp

lemma foldr_max_le: "foldr max ns 0 \<le> (n::nat) \<longleftrightarrow> (\<forall>m \<in> set ns. m \<le> n)"
  by (induction ns) auto

text \<open>
  The call returns exactly when the frames left are as many as the document needs, and then
  it returns what \<open>redact_json\<close> computes; otherwise it raises.
\<close>

lemma redact_json_limited_eq:
  "redact_json_limited c n x
   = (if frames_needed c x \<le> n then Inr (redact_json x) else Inl RecursionError)"
proof (induction c n x rule: redact_json_limited.induct)
  case (1 c obj)
  then show ?case by (cases obj) simp_all
next
  case (2 c n)
  then show ?case by simp
next
  case (3 c n d)
  let ?f = "\<lambda>(k, v). if lower k \<in> SENSITIVE_JSON_KEYS then Inr (k, REDACTED)
                       else map_sum id (Pair k) (redact_json_limited c n v)"
  let ?g = "\<lambda>(k, v). if lower k \<in> SENSITIVE_JSON_KEYS then (k, REDACTED)
                       else (k, redact_json v)"
  let ?need = "\<lambda>(k, v). if lower k \<in> SENSITIVE_JSON_KEYS then 0 else frames_needed c v"
  show ?case
  proof (cases "\<forall>kv \<in> set d. ?need kv \<le> n")
    case True
    have each: "\<And>kv. kv \<in> set d \<Longrightarrow> ?f kv = Inr (?g kv)"
    proof -
      fix kv assume m: "kv \<in> set d"
      obtain k v where kv: "kv = (k, v)" by (cases kv)
      show "?f kv = Inr (?g kv)"
      proof (cases "lower k \<in> SENSITIVE_JSON_KEYS")
        case True
        with kv show ?thesis by simp
      next
        case ns: False
        from True m kv ns have le: "frames_needed c v \<le> n" by auto
        from m kv have m': "(k, v) \<in> set d" by simp
        from 3 [OF m' refl ns]
        have "redact_json_limited c n v
              = (if frames_needed c v \<le> n then Inr (redact_json v) else Inl RecursionError)"
          by simp
        with le kv ns show ?thesis by simp
      qed
    qed
    then have "map ?f d = map (\<lambda>kv. Inr (?g kv)) d" by (intro map_cong refl)
    then have "collect (map ?f d) = Inr (map ?g d)" by (simp only: collect_map_Inr)
    with True show ?thesis by (simp add: foldr_max_le)
  next
    case False
    then obtain k v where m: "(k, v) \<in> set d" and big: "\<not> ?need (k, v) \<le> n" by auto
    then have ns: "lower k \<notin> SENSITIVE_JSON_KEYS" and "\<not> frames_needed c v \<le> n"
      by (auto split: if_splits)
    from 3 [OF m refl ns]
    have "redact_json_limited c n v
          = (if frames_needed c v \<le> n then Inr (redact_json v) else Inl RecursionError)"
      by simp
    with ns \<open>\<not> frames_needed c v \<le> n\<close> have "?f (k, v) = Inl RecursionError" by simp
    with m have "Inl RecursionError \<in> set (map ?f d)" by force
    then have "collect (map ?f d) = Inl RecursionError" by (rule collect_Inl)
    with False show ?thesis by (simp add: foldr_max_le)
  qed
next
  case (4 c n xs)
  show ?case
  proof (cases "n < c")
    case True
    then show ?thesis by simp
  next
    case nc: False
    have "c + foldr max (map (frames_needed c) xs) 0 \<le> n
          \<longleftrightarrow> foldr max (map (frames_needed c) xs) 0 \<le> n - c"
      using nc by arith
    then have fm: "c + foldr max (map (frames_needed c) xs) 0 \<le> n
          \<longleftrightarrow> (\<forall>y \<in> set xs. frames_needed c y \<le> n - c)"
      by (simp add: foldr_max_le)
    show ?thesis
    proof (cases "\<forall>y \<in> set xs. frames_needed c y \<le> n - c")
      case True
      with 4 nc have "map (redact_json_limited c (n - c)) xs
                      = map (\<lambda>y. Inr (redact_json y)) xs" by simp
      then have "collect (map (redact_json_limited c (n - c)) xs)
                 = Inr (map redact_json xs)"
        by (simp only: collect_map_Inr)
      with True nc fm show ?thesis by simp 
    next
      case False
      then obtain y where m: "y \<in> set xs" and "\<not> frames_needed c y \<le> n - c" by auto
      with 4 nc have "redact_json_limited c (n - c) y = Inl RecursionError" by simp
      with m have "Inl RecursionError \<in> set (map (redact_json_limited c (n - c)) xs)"
        by force
      then have "collect (map (redact_json_limited c (n - c)) xs) = Inl RecursionError"
        by (rule collect_Inl)
      with False nc fm show ?thesis by simp 
    qed
  qed
qed simp_all

lemma frames_needed_nested: "frames_needed c (nested k) = Suc (k * Suc c)"
  by (induction k) simp_all

text \<open>
  Claim C1, as the code has it. The call raises \<^verbatim>\<open>RecursionError\<close> exactly when the document
  needs more frames than the call stack has left; it raises nothing else. When the frames
  suffice it returns a document \<open>y\<close>, and for every path \<open>p\<close> that crosses no sensitive key:
  the value of a sensitive key \<open>k\<close> found at \<open>p\<close> is the marker in \<open>y\<close>, whatever that value was
  (a scalar, an array or an object); an object at \<open>p\<close> keeps its keys in their order; an
  array at \<open>p\<close> keeps its length; a scalar at \<open>p\<close> is unchanged; and a path that leads nowhere
  still leads nowhere.
\<close>

theorem redact_json_limited_shape:
  assumes clean: "\<forall>s \<in> set p. \<not> sensitive_step s"
  shows "(redact_json_limited c n x = Inl RecursionError \<longleftrightarrow> n < frames_needed c x)
       \<and> (frames_needed c x \<le> n \<longrightarrow>
            (\<exists>y. redact_json_limited c n x = Inr y
               \<and> (lower k \<in> SENSITIVE_JSON_KEYS \<longrightarrow> value_at x (p @ [Key k]) \<noteq> None \<longrightarrow>
                    value_at y (p @ [Key k]) = Some REDACTED)
               \<and> (\<forall>d. value_at x p = Some (JObj d) \<longrightarrow>
                    (\<exists>d'. value_at y p = Some (JObj d') \<and> map fst d' = map fst d))
               \<and> (\<forall>xs. value_at x p = Some (JArr xs) \<longrightarrow>
                    (\<exists>ys. value_at y p = Some (JArr ys) \<and> length ys = length xs))
               \<and> (\<forall>v. value_at x p = Some v \<longrightarrow> scalar v \<longrightarrow> value_at y p = Some v)
               \<and> (value_at x p = None \<longrightarrow> value_at y p = None)))"
proof (intro conjI impI)
  show "redact_json_limited c n x = Inl RecursionError \<longleftrightarrow> n < frames_needed c x"
    by (simp add: redact_json_limited_eq)
next
  assume "frames_needed c x \<le> n"
  then have "redact_json_limited c n x = Inr (redact_json x)"
    by (simp add: redact_json_limited_eq)
  with redact_json_places [OF clean, of k x]
  show "\<exists>y. redact_json_limited c n x = Inr y
          \<and> (lower k \<in> SENSITIVE_JSON_KEYS \<longrightarrow> value_at x (p @ [Key k]) \<noteq> None \<longrightarrow>
               value_at y (p @ [Key k]) = Some REDACTED)
          \<and> (\<forall>d. value_at x p = Some (JObj d) \<longrightarrow>
               (\<exists>d'. value_at y p = Some (JObj d') \<and> map fst d' = map fst d))
          \<and> (\<forall>xs. value_at x p = Some (JArr xs) \<longrightarrow>
               (\<exists>ys. value_at y p = Some (JArr ys) \<and> length ys = length xs))
          \<and> (\<forall>v. value_at x p = Some v \<longrightarrow> scalar v \<longrightarrow> value_at y p = Some v)
          \<and> (value_at x p = None \<longrightarrow> value_at y p = None)"
    by (intro exI [of _ "redact_json x"] conjI) simp_all
qed

text \<open>
  The theorem at the sample document, which needs four frames. With ten frames left the
  array under \<open>Code\<close> becomes the marker, the object under \<open>user\<close> keeps its two keys, the
  array under \<open>ids\<close> keeps its two elements and the name is unchanged; with three frames left
  the call raises.
\<close>

theorem redact_json_limited_shape_witness:
  "(\<exists>y. redact_json_limited 1 10 sample_document = Inr y
      \<and> value_at y [Key ''user'', Key ''Code''] = Some REDACTED
      \<and> (\<exists>d'. value_at y [Key ''user''] = Some (JObj d') \<and> map fst d' = [''Code'', ''name''])
      \<and> (\<exists>ys. value_at y [Key ''ids''] = Some (JArr ys) \<and> length ys = 2)
      \<and> value_at y [Key ''user'', Key ''name''] = Some (JStr ''n''))
   \<and> redact_json_limited 1 3 sample_document = Inl RecursionError"
proof -
  have c1: "\<forall>s \<in> set [Key ''user'']. \<not> sensitive_step s" by code_simp
  have c2: "\<forall>s \<in> set [Key ''ids'']. \<not> sensitive_step s" by code_simp
  have c3: "\<forall>s \<in> set [Key ''user'', Key ''name'']. \<not> sensitive_step s" by code_simp
  have k: "lower ''Code'' \<in> SENSITIVE_JSON_KEYS" by code_simp
  have need: "frames_needed 1 sample_document = 4" by code_simp
  have v1: "value_at sample_document ([Key ''user''] @ [Key ''Code'']) \<noteq> None" by code_simp
  have v2: "value_at sample_document [Key ''user'']
            = Some (JObj [(''Code'', JArr [JInt 7]), (''name'', JStr ''n'')])"
    by code_simp
  have v3: "value_at sample_document [Key ''ids'']
            = Some (JArr [JInt 1, JObj [(''access_token'', JStr ''s'')]])"
    by code_simp
  have v4: "value_at sample_document [Key ''user'', Key ''name''] = Some (JStr ''n'')"
    by code_simp
  have s4: "scalar (JStr ''n'')" by code_simp
  from redact_json_limited_shape [OF c1, of 1 10 sample_document "''Code''"] need k v1 v2
  obtain y where r: "redact_json_limited 1 10 sample_document = Inr y"
    and a: "value_at y [Key ''user'', Key ''Code''] = Some REDACTED"
    and b: "\<exists>d'. value_at y [Key ''user''] = Some (JObj d') \<and> map fst d' = [''Code'', ''name'']"
    by auto
  from redact_json_limited_shape [OF c2, of 1 10 sample_document "''Code''"] need v3 r
  have c: "\<exists>ys. value_at y [Key ''ids''] = Some (JArr ys) \<and> length ys = 2"
    by auto
  from redact_json_limited_shape [OF c3, of 1 10 sample_document "''Code''"] need v4 s4 r
  have d: "value_at y [Key ''user'', Key ''name''] = Some (JStr ''n'')"
    by auto
  from redact_json_limited_shape [OF c1, of 1 3 sample_document "''Code''"] need
  have e: "redact_json_limited 1 3 sample_document = Inl RecursionError"
    by simp
  from r a b c d e show ?thesis by simp
qed

text \<open>
  Against C1 as it is stated. Only scalar values are replaced, a non-scalar value keeps its
  shape: under the sensitive key \<open>code\<close> an array of two elements, which is not a scalar, is
  replaced by the marker. Never throws for any input: with a thousand frames left, which is
  the default recursion limit, \<^verbatim>\<open>null\<close> inside 500 nested arrays raises where a comprehension
  has a frame of its own, and inside 1000 nested arrays where it has none.
\<close>

theorem redact_json_counterexamples:
  "\<not> scalar (JArr [JInt 1, JInt 2])
   \<and> redact_json (JObj [(''code'', JArr [JInt 1, JInt 2])])
     = JObj [(''code'', JStr ''<REDACTED>'')]
   \<and> redact_json_limited 1 1000 (nested 500) = Inl RecursionError
   \<and> redact_json_limited 0 1000 (nested 1000) = Inl RecursionError"
proof -
  have a: "\<not> scalar (JArr [JInt 1, JInt 2])
           \<and> redact_json (JObj [(''code'', JArr [JInt 1, JInt 2])])
             = JObj [(''code'', JStr ''<REDACTED>'')]"
    by code_simp
  have b: "redact_json_limited 1 1000 (nested 500) = Inl RecursionError"
    by (simp add: redact_json_limited_eq frames_needed_nested)
  have c: "redact_json_limited 0 1000 (nested 1000) = Inl RecursionError"
    by (simp add: redact_json_limited_eq frames_needed_nested)
  from a b c show ?thesis by simp
qed

text \<open>
  Claim C6: redaction is idempotent. Redacting a redacted document gives the same document
  again.
\<close>

theorem redact_json_idempotent: "redact_json (redact_json x) = redact_json x"
proof (induction x rule: redact_json.induct)
  case (2 d)
  have "\<And>kv. kv \<in> set d \<Longrightarrow>
          (case (case kv of (k, v) \<Rightarrow> if lower k \<in> SENSITIVE_JSON_KEYS then (k, REDACTED)
                                     else (k, redact_json v)) of
             (k, v) \<Rightarrow> if lower k \<in> SENSITIVE_JSON_KEYS then (k, REDACTED)
                       else (k, redact_json v))
          = (case kv of (k, v) \<Rightarrow> if lower k \<in> SENSITIVE_JSON_KEYS then (k, REDACTED)
                                   else (k, redact_json v))"
  proof -
    fix kv assume "kv \<in> set d"
    with 2 show "?thesis kv" by (cases kv) (auto simp: REDACTED_def)
  qed
  then show ?case by simp
qed simp_all

section \<open>Token resolution: the properties\<close>

lemma strip_Nil: "strip [] = []"
  by (simp add: strip_def)

lemma nonblank_conv:
  "(case x of None \<Rightarrow> False | Some a \<Rightarrow> a \<noteq> [] \<and> strip a \<noteq> []) = nonblank x"
  by (cases x) (auto simp: nonblank_def strip_Nil)

lemma find_Some_holds: "find P xs = Some x \<Longrightarrow> P x"
  by (induction xs) (auto split: if_splits)

text \<open>A token read from the file is never the empty string.\<close>

lemma read_token_file_nonempty: "read_token_file ld fs path = Some t \<Longrightarrow> t \<noteq> []"
  by (auto simp: read_token_file_def Let_def split: option.splits if_splits json.splits
      dest: find_Some_holds)

lemma resolve_arg:
  "nonblank token_arg \<Longrightarrow>
   resolve_access_token ld fs env token_arg token_file = (map_option strip token_arg, ''arg'')"
  by (cases token_arg) (auto simp: nonblank_def resolve_access_token_def strip_Nil)

lemma resolve_env:
  "\<not> nonblank token_arg \<Longrightarrow> nonblank (env ENV_ACCESS_TOKEN) \<Longrightarrow>
   resolve_access_token ld fs env token_arg token_file
     = (map_option strip (env ENV_ACCESS_TOKEN), ''env'')"
  by (simp add: resolve_access_token_def nonblank_conv)

lemma resolve_file:
  "\<not> nonblank token_arg \<Longrightarrow> \<not> nonblank (env ENV_ACCESS_TOKEN) \<Longrightarrow>
   read_token_file ld fs token_file = Some t \<Longrightarrow>
   resolve_access_token ld fs env token_arg token_file = (Some t, ''file'')"
  by (frule read_token_file_nonempty) (simp add: resolve_access_token_def nonblank_conv)

lemma resolve_missing:
  "\<not> nonblank token_arg \<Longrightarrow> \<not> nonblank (env ENV_ACCESS_TOKEN) \<Longrightarrow>
   read_token_file ld fs token_file = None \<Longrightarrow>
   resolve_access_token ld fs env token_arg token_file = (None, ''missing'')"
  by (simp add: resolve_access_token_def nonblank_conv)

lemma run_all_missing:
  "resolve_access_token (json_loads w) (files w) (environ w) token_arg token_file = (None, src) \<Longrightarrow>
   run_all w token_arg token_file client_id client_secret include_mutating include_destructive
     include_api2 api2_device_token api2_upload_report = (2, None)"
  by (simp add: run_all_def nonempty_def)

text \<open>
  Claim C3: the precedence of the token sources. A non-blank token argument wins whatever
  the environment and the file hold: the result is its value, trimmed of surrounding
  whitespace as \<^verbatim>\<open>strip()\<close> does, tagged \<open>arg\<close>. Without it a non-blank environment
  variable gives its trimmed value tagged \<open>env\<close>. Without both, the token read from the
  file is returned tagged \<open>file\<close>. Without all three there is no token, the tag is
  \<open>missing\<close>, and the run exits with code 2 before it writes a summary.
\<close>

theorem resolve_access_token_precedence:
  "(\<forall>a. token_arg = Some a \<longrightarrow> strip a \<noteq> [] \<longrightarrow>
       resolve_access_token (json_loads w) (files w) (environ w) token_arg token_file
         = (Some (strip a), ''arg''))
   \<and> (\<forall>e. \<not> nonblank token_arg \<longrightarrow> environ w ENV_ACCESS_TOKEN = Some e \<longrightarrow> strip e \<noteq> [] \<longrightarrow>
       resolve_access_token (json_loads w) (files w) (environ w) token_arg token_file
         = (Some (strip e), ''env''))
   \<and> (\<forall>t. \<not> nonblank token_arg \<longrightarrow> \<not> nonblank (environ w ENV_ACCESS_TOKEN) \<longrightarrow>
       read_token_file (json_loads w) (files w) token_file = Some t \<longrightarrow>
       resolve_access_token (json_loads w) (files w) (environ w) token_arg token_file
         = (Some t, ''file''))
   \<and> (\<not> nonblank token_arg \<longrightarrow> \<not> nonblank (environ w ENV_ACCESS_TOKEN) \<longrightarrow>
       read_token_file (json_loads w) (files w) token_file = None \<longrightarrow>
       resolve_access_token (json_loads w) (files w) (environ w) token_arg token_file
         = (None, ''missing'')
       \<and> run_all w token_arg token_file client_id client_secret include_mutating
           include_destructive include_api2 api2_device_token api2_upload_report = (2, None))"
proof (intro conjI allI impI)
  fix a assume "token_arg = Some a" "strip a \<noteq> []"
  then show "resolve_access_token (json_loads w) (files w) (environ w) token_arg token_file
         = (Some (strip a), ''arg'')"
    using resolve_arg [of token_arg] by (simp add: nonblank_def)
next
  fix e assume "\<not> nonblank token_arg" "environ w ENV_ACCESS_TOKEN = Some e" "strip e \<noteq> []"
  then show "resolve_access_token (json_loads w) (files w) (environ w) token_arg token_file
         = (Some (strip e), ''env'')"
    using resolve_env [of token_arg "environ w"] by (simp add: nonblank_def)
next
  fix t assume "\<not> nonblank token_arg" "\<not> nonblank (environ w ENV_ACCESS_TOKEN)"
    "read_token_file (json_loads w) (files w) token_file = Some t"
  then show "resolve_access_token (json_loads w) (files w) (environ w) token_arg token_file
         = (Some t, ''file'')"
    by (rule resolve_file)
next
  assume h: "\<not> nonblank token_arg" "\<not> nonblank (environ w ENV_ACCESS_TOKEN)"
    "read_token_file (json_loads w) (files w) token_file = None"
  then show m: "resolve_access_token (json_loads w) (files w) (environ w) token_arg token_file
         = (None, ''missing'')"
    by (rule resolve_missing)
  show "run_all w token_arg token_file client_id client_secret include_mutating
           include_destructive include_api2 api2_device_token api2_upload_report = (2, None)"
    by (rule run_all_missing [OF m])
qed

text \<open>
  The theorem where the argument, the environment and the file hold three different
  tokens, and where the sources are taken away one after the other. The argument is given
  with surrounding blanks, which the result does not have.
\<close>

theorem resolve_access_token_precedence_witness:
  "resolve_access_token (\<lambda>s. None) token_files token_environ (Some '' arg-token '') ''f''
     = (Some ''arg-token'', ''arg'')
   \<and> resolve_access_token (\<lambda>s. None) token_files token_environ None ''f''
     = (Some ''env-token'', ''env'')
   \<and> resolve_access_token (\<lambda>s. None) token_files (\<lambda>v. None) None ''f''
     = (Some ''file-token'', ''file'')
   \<and> resolve_access_token (\<lambda>s. None) (\<lambda>p. None) (\<lambda>v. None) None ''f'' = (None, ''missing'')
   \<and> run_all (token_world (\<lambda>p. None) (\<lambda>v. None)) None ''f'' None None False False False None
       False = (2, None)"
proof -
  have sel: "json_loads (token_world fs env) = (\<lambda>s. None)" "files (token_world fs env) = fs"
    "environ (token_world fs env) = env" for fs env
    by (simp_all add: token_world_def)
  have a1: "strip '' arg-token '' = ''arg-token''" by code_simp
  have a2: "strip '' arg-token '' \<noteq> []" by code_simp
  have n: "\<not> nonblank None" by code_simp
  have e1: "token_environ ENV_ACCESS_TOKEN = Some ''env-token''" by code_simp
  have e2: "strip ''env-token'' = ''env-token''" by code_simp
  have e3: "strip ''env-token'' \<noteq> []" by code_simp
  have ne: "\<not> nonblank ((\<lambda>v. None) ENV_ACCESS_TOKEN)" by code_simp
  have f1: "read_token_file (\<lambda>s. None) token_files ''f'' = Some ''file-token''" by code_simp
  have f2: "read_token_file (\<lambda>s. None) (\<lambda>p. None) ''f'' = None" by code_simp
  from resolve_access_token_precedence
    [of "Some '' arg-token ''" "token_world token_files token_environ" "''f''"] a2
  have 1: "resolve_access_token (\<lambda>s. None) token_files token_environ (Some '' arg-token '') ''f''
     = (Some ''arg-token'', ''arg'')"
    by (simp add: sel a1)
  from resolve_access_token_precedence [of None "token_world token_files token_environ" "''f''"]
    n e1 e3
  have 2: "resolve_access_token (\<lambda>s. None) token_files token_environ None ''f''
     = (Some ''env-token'', ''env'')"
    by (simp add: sel e2)
  from resolve_access_token_precedence [of None "token_world token_files (\<lambda>v. None)" "''f''"]
    n ne f1
  have 3: "resolve_access_token (\<lambda>s. None) token_files (\<lambda>v. None) None ''f''
     = (Some ''file-token'', ''file'')"
    by (simp add: sel)
  from resolve_access_token_precedence
    [of None "token_world (\<lambda>p. None) (\<lambda>v. None)" "''f''" None None False False False None False]
    n ne f2
  have 4: "resolve_access_token (\<lambda>s. None) (\<lambda>p. None) (\<lambda>v. None) None ''f'' = (None, ''missing'')"
    and 5: "run_all (token_world (\<lambda>p. None) (\<lambda>v. None)) None ''f'' None None False False False
              None False = (2, None)"
    by (simp_all add: sel)
  from 1 2 3 4 5 show ?thesis by blast
qed

subsection \<open>Reading the token file\<close>

lemma strip_Cons_nonspace:
  assumes "\<not> isspace c"
  shows "\<exists>t. strip (c # l) = c # t"
proof -
  have "dropWhile isspace (rev l @ [c])
        = (if \<forall>x\<in>set (rev l). isspace x then [c] else dropWhile isspace (rev l) @ [c])"
    using assms by (simp add: dropWhile_append)
  then obtain zs where "dropWhile isspace (rev l @ [c]) = zs @ [c]"
    by (metis append_Nil)
  then show ?thesis using assms by (simp add: strip_def)
qed

lemma strip_of_lstrip:
  assumes "lstrip raw0 = c # rest"
  shows "\<exists>t. strip raw0 = c # t"
proof -
  have ns: "\<not> isspace c"
    using assms hd_dropWhile [of isspace raw0] by (auto simp: lstrip_def)
  then obtain t where "strip (c # rest) = c # t"
    using strip_Cons_nonspace by blast
  moreover have "strip raw0 = strip (c # rest)"
    using assms ns by (simp add: strip_def lstrip_def)
  ultimately show ?thesis by simp
qed

text \<open>The text is already stripped when the source strips its left end again.\<close>

lemma lstrip_strip: "lstrip (strip s) = strip s"
proof (cases "lstrip s")
  case Nil
  then have "dropWhile isspace s = []" by (simp only: lstrip_def)
  then have "strip s = []" by (simp only: strip_def rev.simps dropWhile.simps)
  then show ?thesis by (simp add: lstrip_def)
next
  case (Cons c rest)
  then obtain t where t: "strip s = c # t"
    using strip_of_lstrip by blast
  have "\<not> isspace c"
    using Cons hd_dropWhile [of isspace s] by (auto simp: lstrip_def)
  then show ?thesis by (simp add: t lstrip_def)
qed

lemma splitlines_Cons_nonbreak:
  assumes "\<not> is_linebreak c"
  shows "\<exists>l ls. splitlines (c # t) = (c # l) # ls"
proof (cases t)
  case Nil
  then show ?thesis using assms by simp
next
  case (Cons d cs)
  have "c \<noteq> CHR 0x0D" using assms by (auto simp: is_linebreak_def)
  then show ?thesis using assms Cons by (cases "splitlines (d # cs)") auto
qed

lemma brace_facts: "\<not> is_linebreak CHR ''{''" "\<not> isspace CHR ''{''" "CHR ''{'' \<noteq> CHR ''#''"
  by (simp_all add: is_linebreak_def isspace_def)

lemma startswith_single: "startswith s [c] = (\<exists>t. s = c # t)"
  by (cases s) (auto simp: startswith_def)

text \<open>
  In a text that starts with a brace the first line is the first line that is neither
  blank nor a comment.
\<close>

lemma first_line_of_brace:
  assumes "startswith s ''{''"
  shows "\<exists>l ls t. splitlines s = l # ls \<and> strip l = CHR ''{'' # t
         \<and> find (\<lambda>line. \<not> (line = [] \<or> startswith line ''#'')) (map strip (splitlines s))
           = Some (strip l)"
proof -
  from assms obtain r where s: "s = CHR ''{'' # r"
    by (auto simp: startswith_single)
  obtain l ls where sl: "splitlines s = (CHR ''{'' # l) # ls"
    using splitlines_Cons_nonbreak [OF brace_facts(1)] s by blast
  obtain t where t: "strip (CHR ''{'' # l) = CHR ''{'' # t"
    using strip_Cons_nonspace [OF brace_facts(2)] by blast
  show ?thesis using sl t by (auto simp: startswith_single)
qed

lemma json_branch_none:
  assumes "\<not> holds_token a" "\<not> holds_token b"
  shows "(case py_or a b of JStr t \<Rightarrow> if strip t \<noteq> [] then Some (strip t) else None
          | _ \<Rightarrow> None) = None"
  using assms by (cases a; cases b) (auto simp: py_or_def holds_token_def)

text \<open>
  Claim C10: the edge cases of reading the token file. A file that cannot be read and a
  file that is empty or blank give no token. A file whose content starts with a brace
  (after leading whitespace) and either does not parse or parses to an object whose
  \<open>access_token\<close> and \<open>token\<close> fields hold no non-blank string is read as plain text: the
  result is the first line that is neither blank nor a comment, trimmed, and that line is
  the first line of the file, which starts with the brace.
\<close>

theorem read_token_file_falls_through:
  "(fs path = None \<longrightarrow> read_token_file ld fs path = None)
   \<and> (\<forall>raw0. fs path = Some raw0 \<longrightarrow> strip raw0 = [] \<longrightarrow> read_token_file ld fs path = None)
   \<and> (\<forall>raw0. fs path = Some raw0 \<longrightarrow> startswith (lstrip raw0) ''{'' \<longrightarrow>
         (ld (strip raw0) = None
          \<or> (\<exists>d. ld (strip raw0) = Some (JObj d) \<and> \<not> holds_token (dget d ''access_token'')
                  \<and> \<not> holds_token (dget d ''token''))) \<longrightarrow>
         read_token_file ld fs path
           = find (\<lambda>line. \<not> (line = [] \<or> startswith line ''#''))
               (map strip (splitlines (strip raw0)))
         \<and> (\<exists>l ls. splitlines (strip raw0) = l # ls
                    \<and> read_token_file ld fs path = Some (strip l)
                    \<and> startswith (strip l) ''{''))"
proof (intro conjI allI impI)
  assume "fs path = None"
  then show "read_token_file ld fs path = None"
    by (simp add: read_token_file_def)
next
  fix raw0 assume "fs path = Some raw0" "strip raw0 = []"
  then show "read_token_file ld fs path = None"
    by (simp add: read_token_file_def)
next
  fix raw0
  assume f: "fs path = Some raw0" and b: "startswith (lstrip raw0) ''{''"
    and p: "ld (strip raw0) = None
          \<or> (\<exists>d. ld (strip raw0) = Some (JObj d) \<and> \<not> holds_token (dget d ''access_token'')
                  \<and> \<not> holds_token (dget d ''token''))"
  from b obtain r where "lstrip raw0 = CHR ''{'' # r"
    by (auto simp: startswith_single)
  then obtain t where st: "strip raw0 = CHR ''{'' # t"
    using strip_of_lstrip by blast
  then have sw: "startswith (strip raw0) ''{''"
    by (simp add: startswith_single)
  have ne: "strip raw0 \<noteq> []" using st by simp
  have eq: "read_token_file ld fs path
        = find (\<lambda>line. \<not> (line = [] \<or> startswith line ''#''))
            (map strip (splitlines (strip raw0)))"
    using p f ne sw
    by (auto simp: read_token_file_def Let_def lstrip_strip json_branch_none)
  show "read_token_file ld fs path
        = find (\<lambda>line. \<not> (line = [] \<or> startswith line ''#''))
            (map strip (splitlines (strip raw0)))"
    by (rule eq)
  from first_line_of_brace [OF sw] obtain l ls t' where
    "splitlines (strip raw0) = l # ls" "strip l = CHR ''{'' # t'"
    "find (\<lambda>line. \<not> (line = [] \<or> startswith line ''#''))
       (map strip (splitlines (strip raw0))) = Some (strip l)"
    by blast
  then show "\<exists>l ls. splitlines (strip raw0) = l # ls
                    \<and> read_token_file ld fs path = Some (strip l)
                    \<and> startswith (strip l) ''{''"
    using eq by (auto simp: startswith_single)
qed

text \<open>
  The theorem at a pretty-printed object without a token field (the token is the line
  \<open>{\<close>), at a file that starts with a brace and does not parse, at a blank file and at a
  file that cannot be read.
\<close>

theorem read_token_file_falls_through_witness:
  "read_token_file pretty_loads (\<lambda>p. Some pretty_file) ''f'' = Some ''{''
   \<and> read_token_file (\<lambda>s. None) (\<lambda>p. Some ''  {oops'') ''f'' = Some ''{oops''
   \<and> read_token_file (\<lambda>s. None) (\<lambda>p. Some ''   '') ''f'' = None
   \<and> read_token_file (\<lambda>s. None) (\<lambda>p. None) ''f'' = None"
proof -
  have p1: "startswith (lstrip pretty_file) ''{''" by code_simp
  have p2: "pretty_loads (strip pretty_file) = Some (JObj [(''note'', JStr ''x'')])"
    by (simp add: pretty_loads_def)
  have p3: "\<not> holds_token (dget [(''note'', JStr ''x'')] ''access_token'')"
    "\<not> holds_token (dget [(''note'', JStr ''x'')] ''token'')"
    by code_simp+
  have p4: "find (\<lambda>line. \<not> (line = [] \<or> startswith line ''#''))
              (map strip (splitlines (strip pretty_file))) = Some ''{''"
    by code_simp
  have o1: "startswith (lstrip ''  {oops'') ''{''" by code_simp
  have o2: "find (\<lambda>line. \<not> (line = [] \<or> startswith line ''#''))
              (map strip (splitlines (strip ''  {oops''))) = Some ''{oops''"
    by code_simp
  have b1: "strip ''   '' = []" by code_simp
  from read_token_file_falls_through [of "\<lambda>p. Some pretty_file" "''f''" pretty_loads]
    p1 p2 p3 p4
  have 1: "read_token_file pretty_loads (\<lambda>p. Some pretty_file) ''f'' = Some ''{''"
    by simp
  from read_token_file_falls_through [of "\<lambda>p. Some ''  {oops''" "''f''" "\<lambda>s. None"] o1 o2
  have 2: "read_token_file (\<lambda>s. None) (\<lambda>p. Some ''  {oops'') ''f'' = Some ''{oops''"
    by simp
  from read_token_file_falls_through [of "\<lambda>p. Some ''   ''" "''f''" "\<lambda>s. None"] b1
  have 3: "read_token_file (\<lambda>s. None) (\<lambda>p. Some ''   '') ''f'' = None"
    by simp
  from read_token_file_falls_through [of "\<lambda>p. None" "''f''" "\<lambda>s. None"]
  have 4: "read_token_file (\<lambda>s. None) (\<lambda>p. None) ''f'' = None"
    by simp
  from 1 2 3 4 show ?thesis by blast
qed

section \<open>The probes: the properties\<close>

text \<open>
  Claim C8: given the listing response of the scenario, whatever the status line and the
  headers, the items-listing probe passes with an empty error list and extracts the item
  id 42.
\<close>

theorem test_items_listing_scenario:
  assumes "json (http ''content_items'') = listing_response"
  shows "test_items_listing http
         = (\<lparr>status = PASS, errors = [], context_updates = []\<rparr>, JInt 42)"
  using assms
  by (simp add: test_items_listing_def listing_response_def pick_first_item_id_def dget_def
      has_key_def require_def expect_int_def expect_str_def expect_list_def expect_obj_def)

theorem test_items_listing_scenario_witness:
  "test_items_listing listing_transport
   = (\<lparr>status = PASS, errors = [], context_updates = []\<rparr>, JInt 42)"
  using test_items_listing_scenario [of listing_transport]
  by (simp add: listing_transport_def)

subsection \<open>The invariant of an outcome\<close>

text \<open>
  How an outcome is built: through bindings, pairs, branches and one of the three final
  forms (the status computed from the error list, FAIL after an appended message, SKIP).
\<close>

lemma ok_let: "(\<And>x. outcome_ok (f x)) \<Longrightarrow> outcome_ok (Let a f)"
  by simp

lemma ok_prod: "(\<And>a b. outcome_ok (f a b)) \<Longrightarrow> outcome_ok (case_prod f p)"
  by (cases p) simp

lemma ok_if: "outcome_ok a \<Longrightarrow> outcome_ok b \<Longrightarrow> outcome_ok (if c then a else b)"
  by simp

lemma ok_option:
  "outcome_ok a \<Longrightarrow> (\<And>x. outcome_ok (f x)) \<Longrightarrow> outcome_ok (case_option a f v)"
  by (cases v) simp_all

lemma okf_let: "(\<And>x. outcome_ok (fst (f x))) \<Longrightarrow> outcome_ok (fst (Let a f))"
  by simp

lemma okf_prod: "(\<And>a b. outcome_ok (fst (f a b))) \<Longrightarrow> outcome_ok (fst (case_prod f p))"
  by (cases p) simp

lemma okf_if:
  "outcome_ok (fst a) \<Longrightarrow> outcome_ok (fst b) \<Longrightarrow> outcome_ok (fst (if c then a else b))"
  by simp

lemma okf_pair: "outcome_ok a \<Longrightarrow> outcome_ok (fst (a, b))"
  by simp

lemma ok_final:
  "outcome_ok \<lparr>status = (if es = [] then PASS else FAIL), errors = es, context_updates = c\<rparr>"
  by (simp add: outcome_ok_def)

lemma ok_fail: "outcome_ok \<lparr>status = FAIL, errors = es @ [m], context_updates = c\<rparr>"
  by (simp add: outcome_ok_def)

lemma ok_skip: "outcome_ok \<lparr>status = SKIP, errors = es, context_updates = c\<rparr>"
  by (simp add: outcome_ok_def)

lemmas ok_rules =
  ok_let ok_prod ok_if ok_option okf_let okf_prod okf_if okf_pair ok_final ok_fail ok_skip

lemma ok_test_user: "outcome_ok (test_user http)"
  unfolding test_user_def by (intro ok_rules)

lemma ok_test_oauth_device_flow_pending: "outcome_ok (test_oauth_device_flow_pending http)"
  unfolding test_oauth_device_flow_pending_def by (intro ok_rules)

lemma ok_test_api2_items_search: "outcome_ok (fst (test_api2_items_search http))"
  unfolding test_api2_items_search_def by (intro ok_rules)

lemma ok_test_api2_item_details: "outcome_ok (test_api2_item_details http)"
  unfolding test_api2_item_details_def by (intro ok_rules)

lemma ok_test_api2_backdrop: "outcome_ok (test_api2_backdrop http)"
  unfolding test_api2_backdrop_def by (intro ok_rules)

lemma ok_test_api2_notifications_mutating: "outcome_ok (test_api2_notifications_mutating http)"
  unfolding test_api2_notifications_mutating_def by (intro ok_rules)

lemma ok_test_api2_upload_report: "outcome_ok (test_api2_upload_report http)"
  unfolding test_api2_upload_report_def by (intro ok_rules)

lemma ok_test_api2_item_collections: "outcome_ok (test_api2_item_collections http)"
  unfolding test_api2_item_collections_def by (intro ok_rules)

lemma ok_test_api2_imdb: "outcome_ok (test_api2_imdb http)"
  unfolding test_api2_imdb_def by (intro ok_rules)

lemma ok_test_types: "outcome_ok (fst (test_types http))"
  unfolding test_types_def by (intro ok_rules)

lemma ok_test_genres: "outcome_ok (fst (test_genres http))"
  unfolding test_genres_def by (intro ok_rules)

lemma ok_test_countries: "outcome_ok (test_countries http)"
  unfolding test_countries_def by (intro ok_rules)

lemma ok_test_subtitles: "outcome_ok (test_subtitles http)"
  unfolding test_subtitles_def by (intro ok_rules)

lemma ok_test_search: "outcome_ok (test_search http)"
  unfolding test_search_def by (intro ok_rules)

lemma ok_test_similar: "outcome_ok (test_similar http)"
  unfolding test_similar_def by (intro ok_rules)

lemma ok_test_shortcut: "outcome_ok (test_shortcut http name genre)"
  unfolding test_shortcut_def by (intro ok_rules)

lemma ok_test_trailer: "outcome_ok (test_trailer http)"
  unfolding test_trailer_def by (intro ok_rules)

lemma ok_test_comments: "outcome_ok (test_comments http)"
  unfolding test_comments_def by (intro ok_rules)

lemma ok_test_vote_mutating: "outcome_ok (test_vote_mutating http)"
  unfolding test_vote_mutating_def by (intro ok_rules)

lemma ok_test_collections: "outcome_ok (fst (test_collections http))"
  unfolding test_collections_def by (intro ok_rules)

lemma ok_test_collections_sort: "outcome_ok (test_collections_sort http)"
  unfolding test_collections_sort_def by (intro ok_rules)

lemma ok_test_collection_items: "outcome_ok (test_collection_items http)"
  unfolding test_collection_items_def by (intro ok_rules)

lemma ok_test_references: "outcome_ok (test_references http)"
  unfolding test_references_def by (intro ok_rules)

lemma ok_test_tv: "outcome_ok (test_tv http)"
  unfolding test_tv_def by (intro ok_rules)

lemma ok_test_watching: "outcome_ok (fst (test_watching http))"
  unfolding test_watching_def by (intro ok_rules)

lemma ok_test_watching_mutating: "outcome_ok (test_watching_mutating http)"
  unfolding test_watching_mutating_def by (intro ok_rules)

lemma ok_test_watchlist_toggle_mutating: "outcome_ok (test_watchlist_toggle_mutating http)"
  unfolding test_watchlist_toggle_mutating_def by (intro ok_rules)

lemma ok_test_history: "outcome_ok (fst (test_history http))"
  unfolding test_history_def by (intro ok_rules)

lemma ok_test_history_mutating:
  "outcome_ok (test_history_mutating http media_id season_id item_id)"
  unfolding test_history_mutating_def by (intro ok_rules)

lemma ok_test_device: "outcome_ok (fst (test_device http))"
  unfolding test_device_def by (intro ok_rules)

lemma ok_test_device_mutating: "outcome_ok (test_device_mutating http)"
  unfolding test_device_mutating_def by (intro ok_rules)

lemma ok_test_items_listing: "outcome_ok (fst (test_items_listing http))"
  unfolding test_items_listing_def by (intro ok_rules)

lemma ok_test_items_listing_filters: "outcome_ok (test_items_listing_filters http)"
  unfolding test_items_listing_filters_def by (intro ok_rules)

lemma ok_test_item_details: "outcome_ok (fst (test_item_details http))"
  unfolding test_item_details_def by (intro ok_rules)

lemma ok_test_media_links: "outcome_ok (fst (test_media_links http))"
  unfolding test_media_links_def by (intro ok_rules)

lemma ok_test_media_video_link: "outcome_ok (test_media_video_link http)"
  unfolding test_media_video_link_def by (intro ok_rules)

lemma ok_test_bookmarks_mutating: "outcome_ok (test_bookmarks_mutating http)"
  unfolding test_bookmarks_mutating_def by (intro ok_rules)

lemmas ok_probes =
  ok_test_user ok_test_oauth_device_flow_pending ok_test_api2_items_search
  ok_test_api2_item_details ok_test_api2_backdrop ok_test_api2_notifications_mutating
  ok_test_api2_upload_report ok_test_api2_item_collections ok_test_api2_imdb ok_test_types
  ok_test_genres ok_test_countries ok_test_subtitles ok_test_search ok_test_similar
  ok_test_shortcut ok_test_trailer ok_test_comments ok_test_vote_mutating ok_test_collections
  ok_test_collections_sort ok_test_collection_items ok_test_references ok_test_tv
  ok_test_watching ok_test_watching_mutating ok_test_watchlist_toggle_mutating ok_test_history
  ok_test_history_mutating ok_test_device ok_test_device_mutating ok_test_items_listing
  ok_test_items_listing_filters ok_test_item_details ok_test_media_links
  ok_test_media_video_link ok_test_bookmarks_mutating

text \<open>
  Claim C9: the invariant of an outcome. Whatever the responses, the outcome of every
  test routine has an empty error list when its status is PASS and at least one error
  message when its status is FAIL (a SKIP outcome carries its reason).
\<close>

theorem probes_outcome_ok:
  "outcome_ok (test_user http)
   \<and> outcome_ok (test_oauth_device_flow_pending http)
   \<and> outcome_ok (fst (test_api2_items_search http))
   \<and> outcome_ok (test_api2_item_details http)
   \<and> outcome_ok (test_api2_backdrop http)
   \<and> outcome_ok (test_api2_notifications_mutating http)
   \<and> outcome_ok (test_api2_upload_report http)
   \<and> outcome_ok (test_api2_item_collections http)
   \<and> outcome_ok (test_api2_imdb http)
   \<and> outcome_ok (fst (test_types http))
   \<and> outcome_ok (fst (test_genres http))
   \<and> outcome_ok (test_countries http)
   \<and> outcome_ok (test_subtitles http)
   \<and> outcome_ok (test_search http)
   \<and> outcome_ok (test_similar http)
   \<and> outcome_ok (test_shortcut http name genre)
   \<and> outcome_ok (test_trailer http)
   \<and> outcome_ok (test_comments http)
   \<and> outcome_ok (test_vote_mutating http)
   \<and> outcome_ok (fst (test_collections http))
   \<and> outcome_ok (test_collections_sort http)
   \<and> outcome_ok (test_collection_items http)
   \<and> outcome_ok (test_references http)
   \<and> outcome_ok (test_tv http)
   \<and> outcome_ok (fst (test_watching http))
   \<and> outcome_ok (test_watching_mutating http)
   \<and> outcome_ok (test_watchlist_toggle_mutating http)
   \<and> outcome_ok (fst (test_history http))
   \<and> outcome_ok (test_history_mutating http media_id season_id item_id)
   \<and> outcome_ok (fst (test_device http))
   \<and> outcome_ok (test_device_mutating http)
   \<and> outcome_ok (fst (test_items_listing http))
   \<and> outcome_ok (test_items_listing_filters http)
   \<and> outcome_ok (fst (test_item_details http))
   \<and> outcome_ok (fst (test_media_links http))
   \<and> outcome_ok (test_media_video_link http)
   \<and> outcome_ok (test_bookmarks_mutating http)"
  by (intro conjI ok_probes)

text \<open>
  The theorem at two transports: on the listing response the items-listing probe passes,
  so its error list is empty; on a response without JSON the user probe fails, so it has
  an error.
\<close>

theorem probes_outcome_ok_witness:
  "status (fst (test_items_listing listing_transport)) = PASS
   \<and> errors (fst (test_items_listing listing_transport)) = []
   \<and> status (test_user silent_transport) = FAIL
   \<and> errors (test_user silent_transport) \<noteq> []"
proof -
  have p: "status (fst (test_items_listing listing_transport)) = PASS" by code_simp
  have f: "status (test_user silent_transport) = FAIL" by code_simp
  have "outcome_ok (fst (test_items_listing listing_transport))"
    using probes_outcome_ok [of listing_transport "[]" None JNull JNull JNull] by simp
  with p have 1: "errors (fst (test_items_listing listing_transport)) = []"
    by (simp add: outcome_ok_def)
  have "outcome_ok (test_user silent_transport)"
    using probes_outcome_ok [of silent_transport "[]" None JNull JNull JNull] by simp
  with f have 2: "errors (test_user silent_transport) \<noteq> []"
    by (simp add: outcome_ok_def)
  from p f 1 2 show ?thesis by blast
qed

section \<open>The device flow: the properties\<close>

lemma poll_loop_step:
  assumes "now < deadline"
  shows "poll_loop w deadline now i attempt sleeps =
          (case poll_body (poll_response w (attempt + 1)) i of
             Return payload \<Rightarrow> Some (Inr payload, attempt + 1, sleeps)
           | Raise e \<Rightarrow> Some (Inl e, attempt + 1, sleeps)
           | Sleep i' \<Rightarrow>
               poll_loop w deadline (now + int (poll_seconds w (attempt + 1)) + i') i'
                 (attempt + 1) (sleeps @ [i']))"
  using assms by (subst poll_loop.simps) simp

lemma poll_loop_expired:
  assumes "\<not> now < deadline"
  shows "poll_loop w deadline now i attempt sleeps =
          Some (Inl (RuntimeError (''device_token: timed out waiting for user authorization ''
                       @ ''(device code expired)'')), attempt, sleeps)"
  using assms by (subst poll_loop.simps) simp

lemma poll_body_errors:
  assumes "json r = JObj d" "dget d ''error'' = JStr e"
    "\<not> isinstance_str (dget d ''access_token'')"
  shows "poll_body r i =
          (if e = ''authorization_pending'' then Sleep i
           else if e = ''slow_down'' then Sleep (i + 5)
           else if e = ''expired_token'' \<or> e = ''access_denied''
           then Raise (RuntimeError (''device_token: '' @ e))
           else Raise (UnexpectedOAuthError (JObj d)))"
  using assms by (simp add: poll_body_def)

text \<open>The body goes on to sleep only after one of the two errors that are not fatal.\<close>

lemma poll_body_sleep:
  assumes "poll_body r i = Sleep i'"
  shows "\<exists>d. json r = JObj d \<and> \<not> isinstance_str (dget d ''access_token'')
         \<and> ((dget d ''error'' = JStr ''authorization_pending'' \<and> i' = i)
              \<or> (dget d ''error'' = JStr ''slow_down'' \<and> i' = i + 5))"
  using assms
  by (cases "json r") (auto simp: poll_body_def Let_def split: if_splits)

text \<open>
  The loop ends: with an interval of at least one second every sleep moves the clock
  towards the deadline, so the loop returns a result.
\<close>

lemma poll_loop_returns:
  "1 \<le> i \<Longrightarrow> poll_loop w deadline now i attempt sleeps \<noteq> None"
proof (induction "nat (deadline - now)" arbitrary: now i attempt sleeps rule: less_induct)
  case less
  show ?case
  proof (cases "now < deadline")
    case False
    then show ?thesis by (simp add: poll_loop_expired)
  next
    case True
    show ?thesis
    proof (cases "poll_body (poll_response w (attempt + 1)) i")
      case (Return payload)
      then show ?thesis using True by (simp add: poll_loop_step)
    next
      case (Raise e)
      then show ?thesis using True by (simp add: poll_loop_step)
    next
      case (Sleep i')
      then have i': "i' = i \<or> i' = i + 5"
        using poll_body_sleep by blast
      with less.prems have pos: "1 \<le> i'" by auto
      let ?now = "now + int (poll_seconds w (attempt + 1)) + i'"
      have "nat (deadline - ?now) < nat (deadline - now)"
        using True pos by simp
      from less.hyps [OF this pos]
      have "poll_loop w deadline ?now i' (attempt + 1) (sleeps @ [i']) \<noteq> None" .
      then show ?thesis using True Sleep by (simp add: poll_loop_step)
    qed
  qed
qed

text \<open>The whole flow returns: a token payload or an error, never nothing.\<close>

lemma device_flow_returns: "device_flow w \<noteq> None"
proof -
  have "\<exists>a n s. poll_loop w deadline now (max 1 i) attempt sleeps = Some (a, n, s)"
    for deadline now i attempt sleeps
    using poll_loop_returns [of "max 1 i" w deadline now attempt sleeps] by auto
  then show ?thesis
    by (simp add: device_flow_def Let_def split: json.splits)
qed

text \<open>
  Claim C4: the handling of an OAuth error. Take a poll response that is an object whose
  \<open>error\<close> is a string and whose \<open>access_token\<close> is not a string (in particular, is
  missing). On \<open>authorization_pending\<close> the body raises nothing and goes on to sleep with
  the interval unchanged; on \<open>slow_down\<close> it goes on to sleep as well; on \<open>expired_token\<close>
  and \<open>access_denied\<close> it raises, and so it does on every other error: the two errors
  are the only ones after which it sleeps. In the loop, while the deadline has not
  passed, the two errors lead to the sleep and on to the next pass, and every other error
  ends the loop with the error raised, this poll being the last one sent.
\<close>

theorem poll_error_handling:
  assumes "json r = JObj d" and "dget d ''error'' = JStr e"
    and "\<not> isinstance_str (dget d ''access_token'')"
  shows "poll_body r i =
          (if e = ''authorization_pending'' then Sleep i
           else if e = ''slow_down'' then Sleep (i + 5)
           else if e = ''expired_token'' \<or> e = ''access_denied''
           then Raise (RuntimeError (''device_token: '' @ e))
           else Raise (UnexpectedOAuthError (JObj d)))
       \<and> ((\<exists>i'. poll_body r i = Sleep i') = (e = ''authorization_pending'' \<or> e = ''slow_down''))
       \<and> (now < deadline \<longrightarrow> poll_response w (attempt + 1) = r \<longrightarrow>
            poll_loop w deadline now i attempt sleeps =
              (if e = ''authorization_pending''
               then poll_loop w deadline (now + int (poll_seconds w (attempt + 1)) + i) i
                      (attempt + 1) (sleeps @ [i])
               else if e = ''slow_down''
               then poll_loop w deadline (now + int (poll_seconds w (attempt + 1)) + (i + 5))
                      (i + 5) (attempt + 1) (sleeps @ [i + 5])
               else if e = ''expired_token'' \<or> e = ''access_denied''
               then Some (Inl (RuntimeError (''device_token: '' @ e)), attempt + 1, sleeps)
               else Some (Inl (UnexpectedOAuthError (JObj d)), attempt + 1, sleeps)))"
proof -
  note b = poll_body_errors [OF assms, of i]
  have 2: "(\<exists>i'. poll_body r i = Sleep i') = (e = ''authorization_pending'' \<or> e = ''slow_down'')"
    by (auto simp: b)
  have 3: "now < deadline \<longrightarrow> poll_response w (attempt + 1) = r \<longrightarrow>
            poll_loop w deadline now i attempt sleeps =
              (if e = ''authorization_pending''
               then poll_loop w deadline (now + int (poll_seconds w (attempt + 1)) + i) i
                      (attempt + 1) (sleeps @ [i])
               else if e = ''slow_down''
               then poll_loop w deadline (now + int (poll_seconds w (attempt + 1)) + (i + 5))
                      (i + 5) (attempt + 1) (sleeps @ [i + 5])
               else if e = ''expired_token'' \<or> e = ''access_denied''
               then Some (Inl (RuntimeError (''device_token: '' @ e)), attempt + 1, sleeps)
               else Some (Inl (UnexpectedOAuthError (JObj d)), attempt + 1, sleeps))"
    by (auto simp: poll_loop_step b)
  from b 2 3 show ?thesis by blast
qed

text \<open>
  The theorem at the four kinds of error: pending keeps the interval of 5, \<open>slow_down\<close>
  sleeps, \<open>access_denied\<close> and an unknown error raise.
\<close>

theorem poll_error_handling_witness:
  "poll_body (error_response ''authorization_pending'') 5 = Sleep 5
   \<and> (\<exists>i'. poll_body (error_response ''slow_down'') 5 = Sleep i')
   \<and> poll_body (error_response ''access_denied'') 5
     = Raise (RuntimeError ''device_token: access_denied'')
   \<and> poll_body (error_response ''server_error'') 5
     = Raise (UnexpectedOAuthError (JObj [(''error'', JStr ''server_error'')]))"
proof -
  have j: "json (error_response e) = JObj [(''error'', JStr e)]" for e
    by (simp add: error_response_def)
  have g: "dget [(''error'', JStr e)] ''error'' = JStr e" for e
    by (simp add: dget_def)
  have a: "\<not> isinstance_str (dget [(''error'', JStr e)] ''access_token'')" for e
    by (simp add: dget_def)
  from poll_error_handling [OF j g a, of "''authorization_pending''" 5, THEN conjunct1]
  have 1: "poll_body (error_response ''authorization_pending'') 5 = Sleep 5"
    by simp
  from poll_error_handling [OF j g a, of "''slow_down''" 5, THEN conjunct2, THEN conjunct1]
  have 2: "\<exists>i'. poll_body (error_response ''slow_down'') 5 = Sleep i'"
    by simp
  from poll_error_handling [OF j g a, of "''access_denied''" 5, THEN conjunct1]
  have 3: "poll_body (error_response ''access_denied'') 5
           = Raise (RuntimeError ''device_token: access_denied'')"
    by simp
  from poll_error_handling [OF j g a, of "''server_error''" 5, THEN conjunct1]
  have 4: "poll_body (error_response ''server_error'') 5
           = Raise (UnexpectedOAuthError (JObj [(''error'', JStr ''server_error'')]))"
    by simp
  from 1 2 3 4 show ?thesis by blast
qed

text \<open>
  Claim C7, as the code has it. A response whose \<open>error\<close> is \<open>slow_down\<close> and whose
  \<open>access_token\<close> is not a string makes the body sleep with the previous interval plus
  5. Whenever the body sleeps with an interval other than the previous one, the response
  was such a \<open>slow_down\<close> and the interval is the previous one plus 5: no other response
  changes it. The interval the body leaves is the one the loop sleeps and the one the next
  pass starts with.
\<close>

theorem poll_interval_change:
  "(\<forall>d. json r = JObj d \<longrightarrow> dget d ''error'' = JStr ''slow_down'' \<longrightarrow>
        \<not> isinstance_str (dget d ''access_token'') \<longrightarrow> poll_body r i = Sleep (i + 5))
   \<and> (\<forall>i'. poll_body r i = Sleep i' \<longrightarrow> i' \<noteq> i \<longrightarrow>
          i' = i + 5 \<and> (\<exists>d. json r = JObj d \<and> dget d ''error'' = JStr ''slow_down''
                            \<and> \<not> isinstance_str (dget d ''access_token'')))
   \<and> (\<forall>i'. now < deadline \<longrightarrow> poll_body (poll_response w (attempt + 1)) i = Sleep i' \<longrightarrow>
          poll_loop w deadline now i attempt sleeps
            = poll_loop w deadline (now + int (poll_seconds w (attempt + 1)) + i') i'
                (attempt + 1) (sleeps @ [i']))"
proof (intro conjI allI impI)
  fix d assume "json r = JObj d" "dget d ''error'' = JStr ''slow_down''"
    "\<not> isinstance_str (dget d ''access_token'')"
  then show "poll_body r i = Sleep (i + 5)"
    by (simp add: poll_body_errors)
next
  fix i' assume s: "poll_body r i = Sleep i'" and n: "i' \<noteq> i"
  from poll_body_sleep [OF s] n show "i' = i + 5" by auto
  from poll_body_sleep [OF s] n
  show "\<exists>d. json r = JObj d \<and> dget d ''error'' = JStr ''slow_down''
            \<and> \<not> isinstance_str (dget d ''access_token'')"
    by auto
next
  fix i' assume "now < deadline" "poll_body (poll_response w (attempt + 1)) i = Sleep i'"
  then show "poll_loop w deadline now i attempt sleeps
            = poll_loop w deadline (now + int (poll_seconds w (attempt + 1)) + i') i'
                (attempt + 1) (sleeps @ [i'])"
    by (simp add: poll_loop_step)
qed

text \<open>
  The theorem in a world that answers \<open>slow_down\<close> once and then keeps the user pending:
  with an interval of 5 and 30 seconds to the deadline the loop sleeps 10 seconds three
  times and then times out.
\<close>

theorem poll_interval_change_witness:
  "poll_body (error_response ''slow_down'') 5 = Sleep 10
   \<and> poll_loop slow_world 30 0 5 0 []
     = Some (Inl (RuntimeError (''device_token: timed out waiting for user authorization ''
                    @ ''(device code expired)'')), 3, [10, 10, 10])"
proof -
  have j: "json (error_response ''slow_down'') = JObj [(''error'', JStr ''slow_down'')]"
    by (simp add: error_response_def)
  have g: "dget [(''error'', JStr ''slow_down'')] ''error'' = JStr ''slow_down''"
    by (simp add: dget_def)
  have a: "\<not> isinstance_str (dget [(''error'', JStr ''slow_down'')] ''access_token'')"
    by (simp add: dget_def)
  from poll_interval_change [of "error_response ''slow_down''" 5, THEN conjunct1] j g a
  have 1: "poll_body (error_response ''slow_down'') 5 = Sleep 10"
    by simp
  have r: "poll_response slow_world n
           = (if n = 1 then error_response ''slow_down''
              else error_response ''authorization_pending'')"
    "poll_seconds slow_world n = 0" for n
    by (simp_all add: slow_world_def)
  have p: "poll_body (error_response ''authorization_pending'') 10 = Sleep 10"
    by (simp add: poll_body_def error_response_def dget_def)
  have "poll_loop slow_world 30 0 5 0 [] = poll_loop slow_world 30 10 10 1 [10]"
    by (subst poll_loop.simps) (simp add: r 1)
  also have "\<dots> = poll_loop slow_world 30 20 10 2 [10, 10]"
    by (subst poll_loop.simps) (simp add: r p numeral_2_eq_2)
  also have "\<dots> = poll_loop slow_world 30 30 10 3 [10, 10, 10]"
    by (subst poll_loop.simps) (simp add: r p numeral_3_eq_3)
  also have "\<dots> = Some (Inl (RuntimeError (''device_token: timed out waiting for user ''
                               @ ''authorization (device code expired)'')), 3, [10, 10, 10])"
    by (subst poll_loop.simps) simp
  finally have 2: "poll_loop slow_world 30 0 5 0 []
     = Some (Inl (RuntimeError (''device_token: timed out waiting for user authorization ''
                    @ ''(device code expired)'')), 3, [10, 10, 10])"
    by simp
  from 1 2 show ?thesis by blast
qed

text \<open>
  Against C7 as it is stated (every response whose \<open>error\<close> is \<open>slow_down\<close> is followed by
  a sleep of the previous interval plus 5): a response that carries a string
  \<open>access_token\<close> beside the error ends the flow with the payload; the loop sends one poll
  and never sleeps.
\<close>

theorem slow_down_with_token_returns:
  "dget [(''access_token'', JStr ''tok''), (''error'', JStr ''slow_down'')] ''error''
     = JStr ''slow_down''
   \<and> poll_body token_and_slow_down 5
     = Return (JObj [(''access_token'', JStr ''tok''), (''error'', JStr ''slow_down'')])
   \<and> poll_loop granting_world 30 0 5 0 []
     = Some (Inr (JObj [(''access_token'', JStr ''tok''), (''error'', JStr ''slow_down'')]),
             1, [])"
proof -
  have b: "poll_body token_and_slow_down 5
     = Return (JObj [(''access_token'', JStr ''tok''), (''error'', JStr ''slow_down'')])"
    by (simp add: poll_body_def token_and_slow_down_def dget_def)
  have r: "poll_response granting_world n = token_and_slow_down" for n
    by (simp add: granting_world_def)
  have l: "poll_loop granting_world 30 0 5 0 []
     = Some (Inr (JObj [(''access_token'', JStr ''tok''), (''error'', JStr ''slow_down'')]),
             1, [])"
    by (subst poll_loop.simps) (simp add: b r)
  show ?thesis
    by (simp add: b l dget_def)
qed

section \<open>The orchestrator: the properties\<close>

text \<open>Descent through the bindings and branches of the orchestrator.\<close>

lemma y_let_prod:
  "(\<And>a b. p = (a, b) \<Longrightarrow> yields (f a b) Q) \<Longrightarrow> yields (Let p (case_prod f)) Q"
  by (cases p) simp

lemma y_let: "(\<And>x. x = a \<Longrightarrow> yields (f x) Q) \<Longrightarrow> yields (Let a f) Q"
  by simp

lemma y_let_any: "(\<And>x. yields (f x) Q) \<Longrightarrow> yields (Let a f) Q"
  by simp

lemma y_let_prod_any: "(\<And>a b. yields (f a b) Q) \<Longrightarrow> yields (Let p (case_prod f)) Q"
  by (cases p) simp

lemma y_if:
  "(c \<Longrightarrow> yields a Q) \<Longrightarrow> (\<not> c \<Longrightarrow> yields b Q) \<Longrightarrow> yields (if c then a else b) Q"
  by simp

lemma y_pair: "Q c rs \<Longrightarrow> yields (c, Some rs) Q"
  by (simp add: yields_def)

text \<open>
  The items listing that picks no item id has failed: the probe records that it could not
  pick one.
\<close>

lemma items_listing_null: "test_items_listing http = (outc, JNull) \<Longrightarrow> status outc = FAIL"
  by (auto simp: test_items_listing_def Let_def)

lemma list_ex_add:
  "list_ex P (add i outc r) = (list_ex P r \<or> P (i, status outc, errors outc))"
  by (auto simp: add_def)

text \<open>
  The exit code of a run that has a token, on both paths: the return after the items
  listing and the return at the end.
\<close>

lemma run_all_exit:
  assumes tok: "nonempty (fst (resolve_access_token (json_loads w) (files w) (environ w)
                                 token_arg token_file))"
  shows "yields (run_all w token_arg token_file client_id client_secret include_mutating
                   include_destructive include_api2 api2_device_token api2_upload_report)
           (\<lambda>c rs. c = (if list_ex (\<lambda>(test_id, s, errs). s = FAIL) rs then 1 else 0))"
  unfolding run_all_def
  apply (rule y_let_prod)
  apply (rule y_if)
  subgoal using tok by simp
  apply (intro y_let_prod y_let)
  apply (rule y_if)
  subgoal premises p
    apply (rule y_pair)
    using p items_listing_null by (auto simp: list_ex_add)
  apply (intro y_let_prod_any y_let_any)
  apply (rule y_pair)
  apply (simp add: list_ex_iff list_all_iff)
  apply auto
  done

text \<open>The run that picks no item id stops after ten tests, with exit code 1.\<close>

lemma run_all_early:
  assumes tok: "nonempty (fst (resolve_access_token (json_loads w) (files w) (environ w)
                                 token_arg token_file))"
  shows "yields (run_all w token_arg token_file client_id client_secret include_mutating
                   include_destructive include_api2 api2_device_token api2_upload_report)
           (\<lambda>c rs. snd (test_items_listing (exchange w)) = JNull \<longrightarrow>
              c = 1 \<and> length rs = 10)"
  unfolding run_all_def
  apply (rule y_let_prod)
  apply (rule y_if)
  subgoal using tok by simp
  apply (intro y_let_prod y_let)
  apply (rule y_if)
  subgoal premises p
    apply (rule y_pair)
    using p by (simp add: add_def)
  subgoal premises p
    apply (intro y_let_prod_any y_let_any)
    apply (rule y_pair)
    using p by simp
  done

text \<open>
  Claim C2. A run that resolved a token completes: it returns an exit code and the recorded
  results. The code is 1 exactly when a recorded outcome is FAIL and 0 exactly when none
  is, so results that are all PASS or SKIP give 0. On the path that returns early, when no
  item id could be picked from the items listing, ten tests are recorded, one of them is
  FAIL and the code is 1.
\<close>

theorem run_all_exit_status:
  assumes tok: "nonempty (fst (resolve_access_token (json_loads w) (files w) (environ w)
                                 token_arg token_file))"
  shows "\<exists>c rs. run_all w token_arg token_file client_id client_secret include_mutating
                   include_destructive include_api2 api2_device_token api2_upload_report
                 = (c, Some rs)
           \<and> (c = 1 \<longleftrightarrow> list_ex (\<lambda>(test_id, s, errs). s = FAIL) rs)
           \<and> (c = 0 \<longleftrightarrow> \<not> list_ex (\<lambda>(test_id, s, errs). s = FAIL) rs)
           \<and> (list_all (\<lambda>(test_id, s, errs). s = PASS \<or> s = SKIP) rs \<longrightarrow> c = 0)
           \<and> (snd (test_items_listing (exchange w)) = JNull \<longrightarrow>
                c = 1 \<and> length rs = 10 \<and> list_ex (\<lambda>(test_id, s, errs). s = FAIL) rs)"
proof -
  let ?run = "run_all w token_arg token_file client_id client_secret include_mutating
                include_destructive include_api2 api2_device_token api2_upload_report"
  from run_all_exit [OF tok, of client_id client_secret include_mutating
                       include_destructive include_api2 api2_device_token api2_upload_report]
  obtain c rs where r: "?run = (c, Some rs)"
    and c: "c = (if list_ex (\<lambda>(test_id, s, errs). s = FAIL) rs then 1 else 0)"
    unfolding yields_def by blast
  from run_all_early [OF tok, of client_id client_secret include_mutating
                        include_destructive include_api2 api2_device_token api2_upload_report] r
  have e: "snd (test_items_listing (exchange w)) = JNull \<longrightarrow> c = 1 \<and> length rs = 10"
    unfolding yields_def by auto
  have s: "list_all (\<lambda>(test_id, s, errs). s = PASS \<or> s = SKIP) rs \<longrightarrow>
             \<not> list_ex (\<lambda>(test_id, s, errs). s = FAIL) rs"
    by (auto simp: list_all_iff list_ex_iff)
  from c e s have
    "(c = 1 \<longleftrightarrow> list_ex (\<lambda>(test_id, s, errs). s = FAIL) rs)
     \<and> (c = 0 \<longleftrightarrow> \<not> list_ex (\<lambda>(test_id, s, errs). s = FAIL) rs)
     \<and> (list_all (\<lambda>(test_id, s, errs). s = PASS \<or> s = SKIP) rs \<longrightarrow> c = 0)
     \<and> (snd (test_items_listing (exchange w)) = JNull \<longrightarrow>
          c = 1 \<and> length rs = 10 \<and> list_ex (\<lambda>(test_id, s, errs). s = FAIL) rs)"
    by (simp split: if_splits)
  with r show ?thesis by blast
qed

text \<open>
  The theorem at a world whose token comes from the environment and whose transport
  returns no JSON: the run stops after the items listing with exit code 1.
\<close>

theorem run_all_exit_status_witness:
  "\<exists>rs. run_all (token_world token_files token_environ) None ''token.txt'' None None
           False False False None False = (1, Some rs)
        \<and> length rs = 10 \<and> list_ex (\<lambda>(test_id, s, errs). s = FAIL) rs"
proof -
  let ?w = "token_world token_files token_environ"
  have tok: "nonempty (fst (resolve_access_token (json_loads ?w) (files ?w) (environ ?w)
                              None ''token.txt''))"
    by code_simp
  have null: "snd (test_items_listing (exchange ?w)) = JNull"
    by code_simp
  from run_all_exit_status [OF tok, of None None False False False None False] null
  show ?thesis by auto
qed

subsection \<open>The inventory of a run\<close>





































end
